theory Spec2Isabelle
  imports Main "HOL-Library.Word"
begin

unbundle bit_operations_syntax

text \<open>
  A shallow embedding of the style subsystem of the Mx toolkit: the value coercion code
  of \<^verbatim>\<open>mx/mx-types.c\<close> (box edges and bordered images read from shorthand text) and the
  stylable interface of \<^verbatim>\<open>mx/mx-stylable.c\<close> (the registry of style properties, the
  notify queue, and the attached style). The definitions come first, the properties
  after them.
\<close>

section \<open>Library routines used by the value coercion code\<close>

text \<open>
  \<^verbatim>\<open>mx-types.c\<close> calls \<^verbatim>\<open>atoi\<close>, \<^verbatim>\<open>g_strsplit\<close>, \<^verbatim>\<open>g_strsplit_set\<close>,
  \<^verbatim>\<open>g_strv_length\<close> and \<^verbatim>\<open>g_path_get_dirname\<close>. They belong to the C library and
  to GLib; each is embedded here with the behaviour its documentation gives. A C string is
  a \<^typ>\<open>string\<close>; a string vector is a list of strings, its terminating \<^verbatim>\<open>NULL\<close>
  entry made explicit by \<open>strv_nth\<close> below.
\<close>

definition isspace :: "char \<Rightarrow> bool" where
  "isspace c = (c = CHR '' '' \<or> c = CHR 0x09 \<or> c = CHR 0x0A \<or> c = CHR 0x0B
                \<or> c = CHR 0x0C \<or> c = CHR 0x0D)"

definition isdigit :: "char \<Rightarrow> bool" where
  "isdigit c = (48 \<le> (of_char c :: nat) \<and> (of_char c :: nat) \<le> 57)"

definition digit_value :: "char \<Rightarrow> int" where
  "digit_value c = int (of_char c) - 48"

text \<open>The digit loop of \<^verbatim>\<open>strtol\<close> in base 10: it stops at the first character that is
  not a digit.\<close>

fun strtol_digits :: "int \<Rightarrow> string \<Rightarrow> int" where
  "strtol_digits acc [] = acc"
| "strtol_digits acc (c # cs) =
     (if isdigit c then strtol_digits (10 * acc + digit_value c) cs else acc)"

definition LONG_MAX :: int where
  "LONG_MAX = 2 ^ 63 - 1"

definition LONG_MIN :: int where
  "LONG_MIN = - (2 ^ 63)"

text \<open>\<^verbatim>\<open>strtol (s, NULL, 10)\<close>: leading white space is skipped, one sign is read, the
  digits are accumulated, and a value outside \<^verbatim>\<open>long\<close> saturates.\<close>

definition strtol :: "string \<Rightarrow> int" where
  "strtol s =
     (let s1 = dropWhile isspace s;
          v = (case s1 of
                 [] \<Rightarrow> 0
               | c # cs \<Rightarrow>
                   if c = CHR ''-'' then - strtol_digits 0 cs
                   else if c = CHR ''+'' then strtol_digits 0 cs
                   else strtol_digits 0 s1)
      in max LONG_MIN (min LONG_MAX v))"

text \<open>\<^verbatim>\<open>atoi\<close> as the GNU C library defines it, \<^verbatim>\<open>(int) strtol (s, NULL, 10)\<close> with a
  64-bit \<^verbatim>\<open>long\<close>: the conversion to the 32-bit \<^verbatim>\<open>int\<close> keeps the low 32 bits, read as
  two's complement. (The C standard leaves \<^verbatim>\<open>atoi\<close> undefined on a value outside
  \<^verbatim>\<open>int\<close>; the properties below that give a number are about values inside it.)\<close>

definition atoi :: "string \<Rightarrow> int" where
  "atoi s = sint (word_of_int (strtol s) :: 32 word)"

text \<open>
  The scanning loop shared by \<^verbatim>\<open>g_strsplit\<close> with a one-character delimiter and
  \<^verbatim>\<open>g_strsplit_set\<close>: \<open>cur\<close> is the text between the start of the current token and
  the scanning position. Every delimiter character closes a token, so two delimiters in a
  row give an empty token.
\<close>

fun scan_tokens :: "(char \<Rightarrow> bool) \<Rightarrow> string \<Rightarrow> string \<Rightarrow> string list" where
  "scan_tokens d cur [] = [cur]"
| "scan_tokens d cur (c # cs) =
     (if d c then cur # scan_tokens d [] cs else scan_tokens d (cur @ [c]) cs)"

text \<open>\<^verbatim>\<open>g_strsplit_set (string, delimiters, 0)\<close>: no limit on the number of tokens; the
  empty string gives the empty vector.\<close>

definition g_strsplit_set :: "string \<Rightarrow> string \<Rightarrow> string list" where
  "g_strsplit_set str delimiters =
     (if str = [] then [] else scan_tokens (\<lambda>c. c \<in> set delimiters) [] str)"

text \<open>\<^verbatim>\<open>g_strsplit (string, delimiter, 0)\<close> for a delimiter of one character, the only
  form \<^verbatim>\<open>mx-types.c\<close> uses.\<close>

definition g_strsplit :: "string \<Rightarrow> char \<Rightarrow> string list" where
  "g_strsplit str delimiter =
     (if str = [] then [] else scan_tokens (\<lambda>c. c = delimiter) [] str)"

definition g_strv_length :: "string list \<Rightarrow> nat" where
  "g_strv_length strv = length strv"

text \<open>Reading entry \<open>i\<close> of a \<^verbatim>\<open>NULL\<close>-terminated vector: a token below the length,
  \<^verbatim>\<open>NULL\<close> (here \<open>None\<close>) at the length itself. The code never reads further.\<close>

definition strv_nth :: "string list \<Rightarrow> nat \<Rightarrow> string option" where
  "strv_nth strv i = (if i < length strv then Some (strv ! i) else None)"

text \<open>\<^verbatim>\<open>g_path_get_dirname\<close> with \<^verbatim>\<open>/\<close> as separator: no separator gives \<^verbatim>\<open>.\<close>;
  otherwise the text before the last separator, without the separators that end it, and
  never shorter than one character.\<close>

definition g_path_get_dirname :: "string \<Rightarrow> string" where
  "g_path_get_dirname file_name =
     (if CHR ''/'' \<notin> set file_name then ''.''
      else
        let upto_last = rev (dropWhile (\<lambda>c. c \<noteq> CHR ''/'') (rev file_name));
            stripped = rev (dropWhile (\<lambda>c. c = CHR ''/'') (rev upto_last))
        in if stripped = [] then ''/'' else stripped)"

section \<open>Box edges: \<^verbatim>\<open>mx_padding_from_string\<close>\<close>

text \<open>Modelled from the spec: the declaration of \<^verbatim>\<open>MxPadding\<close> is in
  \<^verbatim>\<open>mx-types.h\<close>, which is not among the sources; section 3 of the specification gives
  it four integer fields top, right, bottom and left.\<close>

record MxPadding =
  top_p :: int
  right_p :: int
  bottom_p :: int
  left_p :: int

definition padding_zero :: MxPadding where
  "padding_zero = \<lparr>top_p = 0, right_p = 0, bottom_p = 0, left_p = 0\<rparr>"

text \<open>The source string of the \<^verbatim>\<open>GValue\<close> may be \<^verbatim>\<open>NULL\<close> (\<open>None\<close>). The vector
  \<^verbatim>\<open>g_strsplit\<close> returns for a string is never \<^verbatim>\<open>NULL\<close>, so the second early return
  of the function is not taken. The \<^verbatim>\<open>switch\<close> has no default case.\<close>

definition mx_padding_from_string :: "string option \<Rightarrow> MxPadding" where
  "mx_padding_from_string src =
     (case src of
        None \<Rightarrow> padding_zero
      | Some str \<Rightarrow>
          let strv = g_strsplit str (CHR '' '');
              n = g_strv_length strv
          in if n = 1 then
               \<lparr>top_p = atoi (strv ! 0), right_p = atoi (strv ! 0),
                bottom_p = atoi (strv ! 0), left_p = atoi (strv ! 0)\<rparr>
             else if n = 2 then
               \<lparr>top_p = atoi (strv ! 0), right_p = atoi (strv ! 1),
                bottom_p = atoi (strv ! 0), left_p = atoi (strv ! 1)\<rparr>
             else if n = 3 then
               \<lparr>top_p = atoi (strv ! 0), right_p = atoi (strv ! 1),
                bottom_p = atoi (strv ! 2), left_p = atoi (strv ! 1)\<rparr>
             else if n = 4 then
               \<lparr>top_p = atoi (strv ! 0), right_p = atoi (strv ! 1),
                bottom_p = atoi (strv ! 2), left_p = atoi (strv ! 3)\<rparr>
             else padding_zero)"

section \<open>Bordered images: \<^verbatim>\<open>mx_border_image_set_from_string\<close>\<close>

text \<open>Modelled from the spec: the declaration of \<^verbatim>\<open>MxBorderImage\<close> is in
  \<^verbatim>\<open>mx-types.h\<close>, which is not among the sources; section 3 of the specification gives
  it a uri and four integer insets. A \<^verbatim>\<open>NULL\<close> uri, which the zero initialiser of the
  function leaves, is \<open>None\<close>.\<close>

record MxBorderImage =
  uri :: "string option"
  top_b :: int
  right_b :: int
  bottom_b :: int
  left_b :: int

definition border_image_zero :: MxBorderImage where
  "border_image_zero = \<lparr>uri = None, top_b = 0, right_b = 0, bottom_b = 0, left_b = 0\<rparr>"

text \<open>What stops the function instead of a return: reading through the \<^verbatim>\<open>NULL\<close>
  pointer that ends the token vector.\<close>

datatype fault = Null_dereference

text \<open>The diagnostics \<^verbatim>\<open>g_warning\<close> writes, in order.\<close>

type_synonym diagnostics = "string list"

definition could_not_parse :: "string \<Rightarrow> string" where
  "could_not_parse str = ''Could not parse border image from '' @ [CHR 0x22] @ str @ [CHR 0x22]"

text \<open>The delimiter set of the source, \<^verbatim>\<open>" (\"\')"\<close>: space, opening parenthesis, double
  quote, single quote, closing parenthesis.\<close>

definition border_image_delimiters :: string where
  "border_image_delimiters = [CHR '' '', CHR ''('', CHR 0x22, CHR 0x27, CHR '')'']"

text \<open>
  The function returns the value it stores in \<^verbatim>\<open>dest\<close> together with its diagnostics,
  or the fault that stops it. The text and the file name are strings (a \<^verbatim>\<open>NULL\<close> text
  is outside the function's contract: \<^verbatim>\<open>strcmp\<close> reads it at once). The expression
  \<^verbatim>\<open>strv[2][0]\<close> reads the third entry of the vector, which is the terminating
  \<^verbatim>\<open>NULL\<close> when there are two tokens; on an empty token it reads the terminating
  zero byte, which is not \<^verbatim>\<open>/\<close>.
\<close>

definition mx_border_image_set_from_string ::
  "string \<Rightarrow> string \<Rightarrow> fault + (MxBorderImage \<times> diagnostics)" where
  "mx_border_image_set_from_string str filename =
     (if str = ''none'' then Inr (border_image_zero, [])
      else
        let strv = g_strsplit_set str border_image_delimiters;
            n_tokens = g_strv_length strv
        in if n_tokens < 2 then Inr (border_image_zero, [could_not_parse str])
           else if strv ! 0 \<noteq> ''url'' then Inr (border_image_zero, [could_not_parse str])
           else
             (case strv_nth strv 2 of
                None \<Rightarrow> Inl Null_dereference
              | Some path \<Rightarrow>
                  let u = (if take 1 path = ''/'' then path
                           else g_path_get_dirname filename @ ''/'' @ path);
                      b = border_image_zero\<lparr>uri := Some u\<rparr>
                  in if n_tokens = 6 then
                       Inr (b\<lparr>top_b := atoi (strv ! 5), right_b := atoi (strv ! 5),
                              bottom_b := atoi (strv ! 5), left_b := atoi (strv ! 5)\<rparr>, [])
                     else if n_tokens = 7 then
                       Inr (b\<lparr>top_b := atoi (strv ! 5), bottom_b := atoi (strv ! 5),
                              right_b := atoi (strv ! 6), left_b := atoi (strv ! 6)\<rparr>, [])
                     else if n_tokens = 8 then
                       Inr (b\<lparr>top_b := atoi (strv ! 5), right_b := atoi (strv ! 6),
                              left_b := atoi (strv ! 6), bottom_b := atoi (strv ! 7)\<rparr>, [])
                     else if n_tokens = 9 then
                       Inr (b\<lparr>top_b := atoi (strv ! 5), right_b := atoi (strv ! 6),
                              bottom_b := atoi (strv ! 7), left_b := atoi (strv ! 8)\<rparr>, [])
                     else Inr (b, [])))"

subsection \<open>The shorthand rules in the words of the specification\<close>

text \<open>The positional rule of section 4.4 on the parsed tokens: one value for all four
  edges; two for top/bottom and left/right; three for top, left/right and bottom; four
  for top, right, bottom and left; any other count gives the all-zero result.\<close>

fun box_edges_shorthand :: "int list \<Rightarrow> MxPadding" where
  "box_edges_shorthand [a] = \<lparr>top_p = a, right_p = a, bottom_p = a, left_p = a\<rparr>"
| "box_edges_shorthand [a, b] = \<lparr>top_p = a, right_p = b, bottom_p = a, left_p = b\<rparr>"
| "box_edges_shorthand [a, b, c] = \<lparr>top_p = a, right_p = b, bottom_p = c, left_p = b\<rparr>"
| "box_edges_shorthand [a, b, c, d] = \<lparr>top_p = a, right_p = b, bottom_p = c, left_p = d\<rparr>"
| "box_edges_shorthand _ = padding_zero"

text \<open>Tokens written with one space between neighbours.\<close>

definition join_spaces :: "string list \<Rightarrow> string" where
  "join_spaces ts =
     (case ts of [] \<Rightarrow> [] | t # rest \<Rightarrow> t @ concat (map (\<lambda>e. CHR '' '' # e) rest))"

text \<open>The value of a string of decimal digits.\<close>

definition base10_value :: "string \<Rightarrow> int" where
  "base10_value ds = foldl (\<lambda>a c. 10 * a + digit_value c) 0 ds"

text \<open>"Tokenizes on whitespace", as section 4.4 words it: the maximal runs of characters
  that are not white space.\<close>

definition spec_tokenize :: "string \<Rightarrow> string list" where
  "spec_tokenize s = filter (\<lambda>t. t \<noteq> []) (scan_tokens isspace [] s)"

definition spec_parse_box_edges :: "string \<Rightarrow> MxPadding" where
  "spec_parse_box_edges s = box_edges_shorthand (map atoi (spec_tokenize s))"

text \<open>The four insets of a bordered image, as box edges.\<close>

definition border_edges :: "MxBorderImage \<Rightarrow> MxPadding" where
  "border_edges b =
     \<lparr>top_p = top_b b, right_p = right_b b, bottom_p = bottom_b b, left_p = left_b b\<rparr>"

definition border_image_of :: "string \<Rightarrow> MxPadding \<Rightarrow> MxBorderImage" where
  "border_image_of u p =
     \<lparr>uri = Some u, top_b = top_p p, right_b = right_p p, bottom_b = bottom_p p,
      left_b = left_p p\<rparr>"

text \<open>The path rule of section 4.4: a path that starts with the root marker \<^verbatim>\<open>/\<close> is
  kept; any other is put behind the directory of the base path.\<close>

definition resolve_path :: "string \<Rightarrow> string \<Rightarrow> string" where
  "resolve_path base_path path =
     (if path \<noteq> [] \<and> hd path = CHR ''/'' then path
      else g_path_get_dirname base_path @ ''/'' @ path)"

text \<open>The bordered-image shorthand of section 6, \<^verbatim>\<open>url(<path>) <n edges>\<close>, with the path
  between two quote characters \<open>q\<close> and with a bare path; every edge token follows one
  space.\<close>

definition edge_suffix :: "string list \<Rightarrow> string" where
  "edge_suffix es = concat (map (\<lambda>e. CHR '' '' # e) es)"

definition url_quoted :: "char \<Rightarrow> string \<Rightarrow> string list \<Rightarrow> string" where
  "url_quoted q path es = ''url('' @ [q] @ path @ [q] @ '')'' @ edge_suffix es"

definition url_bare :: "string \<Rightarrow> string list \<Rightarrow> string" where
  "url_bare path es = ''url('' @ path @ '')'' @ edge_suffix es"

definition delimiter_free :: "string \<Rightarrow> bool" where
  "delimiter_free t = list_all (\<lambda>c. c \<notin> set border_image_delimiters) t"

section \<open>The GObject runtime that \<^verbatim>\<open>mx-stylable.c\<close> runs on\<close>

text \<open>
  \<^verbatim>\<open>mx-stylable.c\<close> works on GObject instances through GLib calls. The part of the
  runtime that the functions below read and write is an explicit state: reference counts,
  the data lists of the objects, the notify queue of each object, the pool of style
  properties, and the trace of what the functions emit (diagnostics, signals and property
  notifications, in order). Signal handlers are outside this file, so an emission is an
  entry of the trace.

  An object is an address; a nullable pointer is an \<open>option\<close>. A quark is the string it
  interns: two quarks are equal exactly when their strings are, and
  \<^verbatim>\<open>g_object_get_data\<close> with a string key reads the entry that \<^verbatim>\<open>g_object_set_qdata\<close>
  wrote under the quark of the same string. \<^verbatim>\<open>G_TYPE_INVALID\<close> is the type 0.
\<close>

type_synonym addr = nat

type_synonym GQuark = string

type_synonym GType = nat

definition G_TYPE_INVALID :: GType where
  "G_TYPE_INVALID = 0"

subsection \<open>Property descriptors\<close>

text \<open>A \<^verbatim>\<open>GParamSpec\<close>: its name, its flags, its value type, and the datum that
  \<^verbatim>\<open>mx_stylable_iface_install_property\<close> attaches under \<^verbatim>\<open>quark_real_owner\<close> (absent
  until then). The flag bits are those of \<^verbatim>\<open>GParamFlags\<close>.\<close>

record GParamSpec =
  name :: string
  flags :: "32 word"
  value_type :: GType
  real_owner :: "string option"

definition G_PARAM_READABLE :: "32 word" where
  "G_PARAM_READABLE = 1"

definition G_PARAM_WRITABLE :: "32 word" where
  "G_PARAM_WRITABLE = 2"

definition G_PARAM_CONSTRUCT :: "32 word" where
  "G_PARAM_CONSTRUCT = 4"

definition G_PARAM_CONSTRUCT_ONLY :: "32 word" where
  "G_PARAM_CONSTRUCT_ONLY = 8"

subsection \<open>Signals and the trace\<close>

text \<open>The \<^verbatim>\<open>enum\<close> at the head of \<^verbatim>\<open>mx-stylable.c\<close> that indexes
  \<^verbatim>\<open>stylable_signals\<close>.\<close>

datatype signal = STYLE_CHANGED | STYLE_NOTIFY | CHANGED

text \<open>What \<^verbatim>\<open>g_signal_new\<close> registers in \<^verbatim>\<open>mx_stylable_base_init\<close>: the name and the
  number of parameters of each signal. \<^verbatim>\<open>style-changed\<close> and \<^verbatim>\<open>stylable-changed\<close> are
  registered with the marshaller \<^verbatim>\<open>VOID__VOID\<close> and 0 parameters, \<^verbatim>\<open>style-notify\<close> with
  \<^verbatim>\<open>VOID__PARAM\<close> and 1 parameter of type \<^verbatim>\<open>G_TYPE_PARAM\<close>.\<close>

record signal_node =
  signal_name :: string
  n_params :: nat

definition stylable_signals :: "signal \<Rightarrow> signal_node" where
  "stylable_signals s =
     (case s of
        STYLE_CHANGED \<Rightarrow> \<lparr>signal_name = ''style-changed'', n_params = 0\<rparr>
      | CHANGED \<Rightarrow> \<lparr>signal_name = ''stylable-changed'', n_params = 0\<rparr>
      | STYLE_NOTIFY \<Rightarrow> \<lparr>signal_name = ''style-notify'', n_params = 1\<rparr>)"

text \<open>An argument passed to \<^verbatim>\<open>g_signal_emit\<close> after the detail: an object pointer or a
  property descriptor.\<close>

datatype garg = Arg_object "addr option" | Arg_param GParamSpec

datatype log_level = Warning | Critical

text \<open>An entry of the trace: a diagnostic (\<^verbatim>\<open>g_warning\<close>, or the critical message of a
  failed \<^verbatim>\<open>g_return_if_fail\<close>), neither of which stops the program unless GLib is told
  to make them fatal; a signal emission with the instance, the signal, the detail and the
  parameters the handlers receive; a \<^verbatim>\<open>g_object_notify\<close> for a property of the
  object.\<close>

datatype event =
    Diagnostic log_level string
  | Emission addr signal "GQuark option" "garg list"
  | Property_notify addr string

subsection \<open>The state\<close>

text \<open>The queue of \<^verbatim>\<open>gobject/gobjectnotifyqueue.c\<close>. Both counters are \<^verbatim>\<open>guint16\<close>;
  every increment below is guarded by a comparison with 65535 and every decrement by a
  comparison with 0, so they are natural numbers that stay in range.\<close>

record GObjectNotifyQueue =
  pspecs :: "GParamSpec list"
  n_pspecs :: nat
  freeze_count :: nat

text \<open>
  \<open>ref_count\<close> is the reference count of each object, 0 for an address that holds no
  live object. \<open>qdata\<close> is the data list of each object, restricted to entries that are
  object pointers stored with \<^verbatim>\<open>g_object_unref\<close> as destroy function, which is how
  \<^verbatim>\<open>mx_stylable_set_style\<close>, the only writer in the file, stores them. \<open>notify_queue\<close> is
  the entry of the data list under the quark of \<^verbatim>\<open>property_notify_context\<close>
  (\<^verbatim>\<open>MxStylable-style-property-notify-queue\<close>), kept apart because its value is a queue.
  \<open>style_property_spec_pool\<close> is the static pool of the file, keyed by name and owner type.
\<close>

record world =
  ref_count :: "addr \<Rightarrow> nat"
  qdata :: "addr \<Rightarrow> GQuark \<rightharpoonup> addr"
  notify_queue :: "addr \<rightharpoonup> GObjectNotifyQueue"
  style_property_spec_pool :: "string \<times> GType \<rightharpoonup> GParamSpec"
  trace :: "event list"

text \<open>
  What the macros and type functions of headers outside the sources answer, taken as
  parameters: whether an address holds an instance that implements \<^verbatim>\<open>MxStylable\<close>
  (\<^verbatim>\<open>MX_IS_STYLABLE\<close>), whether it holds an \<^verbatim>\<open>MxStyle\<close> (\<^verbatim>\<open>MX_IS_STYLE\<close>, false for
  \<^verbatim>\<open>NULL\<close>), the type of an instance (\<^verbatim>\<open>G_OBJECT_TYPE\<close>), the name of a type
  (\<^verbatim>\<open>g_type_name\<close>), and the proper ancestors of a type, nearest first (the chain that
  \<^verbatim>\<open>g_type_parent\<close> walks).
\<close>

record env =
  is_stylable :: "addr \<Rightarrow> bool"
  is_style :: "addr \<Rightarrow> bool"
  G_OBJECT_TYPE :: "addr \<Rightarrow> GType"
  g_type_name :: "GType \<Rightarrow> string"
  g_type_ancestors :: "GType \<Rightarrow> GType list"

definition MX_IS_STYLABLE :: "env \<Rightarrow> addr \<Rightarrow> bool" where
  "MX_IS_STYLABLE e stylable = is_stylable e stylable"

definition MX_IS_STYLE :: "env \<Rightarrow> addr option \<Rightarrow> bool" where
  "MX_IS_STYLE e style = (case style of None \<Rightarrow> False | Some s \<Rightarrow> is_style e s)"

text \<open>The two entries of the interface table \<^verbatim>\<open>MxStylableIface\<close> that the functions
  below read. A \<^verbatim>\<open>NULL\<close> entry is \<open>None\<close>; an override reads, or transforms, the
  state.\<close>

record 'w MxStylableIface =
  get_style :: "(addr \<Rightarrow> 'w \<Rightarrow> addr option) option"
  set_style :: "(addr \<Rightarrow> addr \<Rightarrow> 'w \<Rightarrow> 'w) option"

subsection \<open>GLib calls\<close>

definition g_log :: "log_level \<Rightarrow> string \<Rightarrow> world \<Rightarrow> world" where
  "g_log level message w = w\<lparr>trace := trace w @ [Diagnostic level message]\<rparr>"

text \<open>\<^verbatim>\<open>g_object_ref\<close> and \<^verbatim>\<open>g_object_unref\<close> check \<^verbatim>\<open>G_IS_OBJECT\<close> first: on
  \<^verbatim>\<open>NULL\<close>, and on an address without a live object, they log a critical message and do
  nothing else. An object whose count reaches 0 is finalized; what its finalizer does is
  outside this file.\<close>

definition g_object_ref :: "addr option \<Rightarrow> world \<Rightarrow> world" where
  "g_object_ref object w =
     (case object of
        None \<Rightarrow> g_log Critical ''g_object_ref: assertion G_IS_OBJECT (object) failed'' w
      | Some a \<Rightarrow>
          if ref_count w a = 0 then
            g_log Critical ''g_object_ref: assertion G_IS_OBJECT (object) failed'' w
          else w\<lparr>ref_count := (ref_count w)(a := ref_count w a + 1)\<rparr>)"

definition g_object_unref :: "addr option \<Rightarrow> world \<Rightarrow> world" where
  "g_object_unref object w =
     (case object of
        None \<Rightarrow> g_log Critical ''g_object_unref: assertion G_IS_OBJECT (object) failed'' w
      | Some a \<Rightarrow>
          if ref_count w a = 0 then
            g_log Critical ''g_object_unref: assertion G_IS_OBJECT (object) failed'' w
          else w\<lparr>ref_count := (ref_count w)(a := ref_count w a - 1)\<rparr>)"

text \<open>\<^verbatim>\<open>g_object_ref_sink\<close> on an \<^verbatim>\<open>MxStyle\<close>, which is a plain \<^verbatim>\<open>GObject\<close> and so never
  floating: it takes a reference.\<close>

definition g_object_ref_sink :: "addr \<Rightarrow> world \<Rightarrow> world" where
  "g_object_ref_sink a w = g_object_ref (Some a) w"

definition g_object_get_data :: "addr \<Rightarrow> string \<Rightarrow> world \<Rightarrow> addr option" where
  "g_object_get_data object key w = qdata w object key"

text \<open>\<^verbatim>\<open>g_object_set_qdata_full (object, quark, data, g_object_unref)\<close> with
  \<open>data\<close> not \<^verbatim>\<open>NULL\<close>: the entry is replaced, then the destroy function of the entry it
  replaces is called on the old datum.\<close>

definition g_object_set_qdata_full :: "addr \<Rightarrow> GQuark \<Rightarrow> addr \<Rightarrow> world \<Rightarrow> world" where
  "g_object_set_qdata_full object quark data w =
     (let old = qdata w object quark;
          w1 = w\<lparr>qdata := (qdata w)(object := (qdata w object)(quark \<mapsto> data))\<rparr>
      in case old of None \<Rightarrow> w1 | Some previous \<Rightarrow> g_object_unref (Some previous) w1)"

text \<open>\<^verbatim>\<open>g_signal_emit (instance, signal_id, detail, ...)\<close> collects as many arguments as
  the signal was registered with and hands those to the handlers; further arguments of
  the call are not read.\<close>

definition g_signal_emit :: "addr \<Rightarrow> signal \<Rightarrow> GQuark option \<Rightarrow> garg list \<Rightarrow> world \<Rightarrow> world" where
  "g_signal_emit instance signal_id detail args w =
     w\<lparr>trace := trace w @
          [Emission instance signal_id detail (take (n_params (stylable_signals signal_id)) args)]\<rparr>"

text \<open>\<^verbatim>\<open>g_object_notify (object, property_name)\<close>: the request to notify the listeners
  of the property. How GObject delivers it (at once, or when its own notify queue thaws)
  is outside this file.\<close>

definition g_object_notify :: "addr \<Rightarrow> string \<Rightarrow> world \<Rightarrow> world" where
  "g_object_notify object property_name w =
     w\<lparr>trace := trace w @ [Property_notify object property_name]\<rparr>"

text \<open>\<^verbatim>\<open>g_param_spec_pool_lookup\<close>: the descriptor installed under the name for the owner
  type itself, or, with \<open>walk_ancestors\<close>, for the nearest type of the chain from the
  owner type upwards that has one.\<close>

fun pool_walk :: "(string \<times> GType \<rightharpoonup> GParamSpec) \<Rightarrow> string \<Rightarrow> GType list \<Rightarrow> GParamSpec option" where
  "pool_walk pool param_name [] = None"
| "pool_walk pool param_name (t # ts) =
     (case pool (param_name, t) of
        Some pspec \<Rightarrow> Some pspec
      | None \<Rightarrow> pool_walk pool param_name ts)"

definition g_param_spec_pool_lookup ::
  "env \<Rightarrow> (string \<times> GType \<rightharpoonup> GParamSpec) \<Rightarrow> string \<Rightarrow> GType \<Rightarrow> bool \<Rightarrow> GParamSpec option" where
  "g_param_spec_pool_lookup e pool param_name owner_type walk_ancestors =
     (if walk_ancestors then pool_walk pool param_name (owner_type # g_type_ancestors e owner_type)
      else pool (param_name, owner_type))"

text \<open>\<^verbatim>\<open>g_param_spec_pool_insert\<close> of a descriptor that no pool holds yet, for a valid
  owner type: the pool holds it under its name and the owner type.\<close>

definition g_param_spec_pool_insert ::
  "GParamSpec \<Rightarrow> GType \<Rightarrow> (string \<times> GType \<rightharpoonup> GParamSpec) \<Rightarrow> (string \<times> GType \<rightharpoonup> GParamSpec)" where
  "g_param_spec_pool_insert pspec owner_type pool = pool((name pspec, owner_type) \<mapsto> pspec)"

subsection \<open>The notify queue\<close>

text \<open>
  \<^verbatim>\<open>mx-stylable.c\<close> includes \<^verbatim>\<open>gobject/gobjectnotifyqueue.c\<close>, a file that GLib installs;
  its functions are embedded as that file has them. \<^verbatim>\<open>g_object_notify_queue_freeze\<close>
  creates the queue of the object when it has none and increments \<open>freeze_count\<close>.
  \<^verbatim>\<open>g_object_notify_queue_add\<close> prepends a readable descriptor.
  \<^verbatim>\<open>g_object_notify_queue_thaw\<close> decrements \<open>freeze_count\<close>; when that reaches 0 it
  copies the descriptors without repetitions, removes the queue from the object and calls
  the dispatcher of the context, here \<^verbatim>\<open>mx_stylable_notify_dispatcher\<close>, unless there is
  none to dispatch. The queue the C functions get as a pointer is the one the object
  holds. Style properties are plain descriptors, so the redirection that
  \<^verbatim>\<open>g_object_notify_queue_add\<close> applies to an overriding descriptor does not occur.
\<close>

definition g_object_notify_queue_from_object :: "addr \<Rightarrow> world \<Rightarrow> GObjectNotifyQueue option" where
  "g_object_notify_queue_from_object object w = notify_queue w object"

definition g_object_notify_queue_freeze :: "addr \<Rightarrow> world \<Rightarrow> world" where
  "g_object_notify_queue_freeze object w =
     (let nqueue = (case notify_queue w object of
                      None \<Rightarrow> \<lparr>pspecs = [], n_pspecs = 0, freeze_count = 0\<rparr>
                    | Some q \<Rightarrow> q)
      in if 65535 \<le> freeze_count nqueue then
           g_log Critical ''g_object_notify_queue_freeze: assertion nqueue->freeze_count < 65535 failed''
             (w\<lparr>notify_queue := (notify_queue w)(object \<mapsto> nqueue)\<rparr>)
         else
           w\<lparr>notify_queue :=
               (notify_queue w)(object \<mapsto> nqueue\<lparr>freeze_count := freeze_count nqueue + 1\<rparr>)\<rparr>)"

definition g_object_notify_queue_add :: "addr \<Rightarrow> GParamSpec \<Rightarrow> world \<Rightarrow> world" where
  "g_object_notify_queue_add object pspec w =
     (case notify_queue w object of
        None \<Rightarrow> w
      | Some nqueue \<Rightarrow>
          if flags pspec AND G_PARAM_READABLE \<noteq> 0 then
            if 65535 \<le> n_pspecs nqueue then
              g_log Critical ''g_object_notify_queue_add: assertion nqueue->n_pspecs < 65535 failed'' w
            else
              w\<lparr>notify_queue :=
                  (notify_queue w)(object \<mapsto>
                     nqueue\<lparr>pspecs := pspec # pspecs nqueue, n_pspecs := n_pspecs nqueue + 1\<rparr>)\<rparr>
          else w)"

text \<open>The loop of the thaw that copies the list into the array \<open>acc\<close>, skipping a
  descriptor the array already holds.\<close>

fun dedup_pspecs :: "GParamSpec list \<Rightarrow> GParamSpec list \<Rightarrow> GParamSpec list" where
  "dedup_pspecs acc [] = acc"
| "dedup_pspecs acc (pspec # slist) =
     (if pspec \<in> set acc then dedup_pspecs acc slist else dedup_pspecs (acc @ [pspec]) slist)"

text \<open>The entries of the trace other than diagnostics: what the functions emit to
  handlers and listeners.\<close>

fun is_diagnostic :: "event \<Rightarrow> bool" where
  "is_diagnostic (Diagnostic l m) = True"
| "is_diagnostic (Emission a s d args) = False"
| "is_diagnostic (Property_notify a p) = False"

definition emitted :: "world \<Rightarrow> event list" where
  "emitted w = filter (\<lambda>x. \<not> is_diagnostic x) (trace w)"

section \<open>\<^verbatim>\<open>mx-stylable.c\<close>\<close>

text \<open>The quarks \<^verbatim>\<open>mx_stylable_base_init\<close> creates.\<close>

definition quark_real_owner :: GQuark where
  "quark_real_owner = ''mx-stylable-real-owner-quark''"

definition quark_style :: GQuark where
  "quark_style = ''mx-stylable-style-quark''"

text \<open>A failed \<^verbatim>\<open>g_return_if_fail\<close>: a critical message that names the function and the
  expression, then the function returns.\<close>

definition return_if_fail_warning :: "string \<Rightarrow> string \<Rightarrow> world \<Rightarrow> world" where
  "return_if_fail_warning func expr w =
     g_log Critical (func @ '': assertion '' @ expr @ '' failed'') w"

text \<open>\<^verbatim>\<open>mx_stylable_notify_dispatcher\<close>: one \<^verbatim>\<open>style-notify\<close> emission for each
  descriptor of the array, in order, with the quark of its name as detail and the
  descriptor as parameter.\<close>

fun mx_stylable_notify_dispatcher :: "addr \<Rightarrow> GParamSpec list \<Rightarrow> world \<Rightarrow> world" where
  "mx_stylable_notify_dispatcher gobject [] w = w"
| "mx_stylable_notify_dispatcher gobject (pspec # rest) w =
     mx_stylable_notify_dispatcher gobject rest
       (g_signal_emit gobject STYLE_NOTIFY (Some (name pspec)) [Arg_param pspec] w)"

definition g_object_notify_queue_thaw :: "addr \<Rightarrow> world \<Rightarrow> world" where
  "g_object_notify_queue_thaw object w =
     (case notify_queue w object of
        None \<Rightarrow> w
      | Some nqueue \<Rightarrow>
          if freeze_count nqueue = 0 then
            g_log Critical ''g_object_notify_queue_thaw: assertion nqueue->freeze_count > 0 failed'' w
          else
            let nqueue' = nqueue\<lparr>freeze_count := freeze_count nqueue - 1\<rparr>;
                w1 = w\<lparr>notify_queue := (notify_queue w)(object \<mapsto> nqueue')\<rparr>
            in if freeze_count nqueue' \<noteq> 0 then w1
               else if ref_count w object = 0 then
                 g_log Critical ''g_object_notify_queue_thaw: assertion object->ref_count > 0 failed'' w1
               else
                 let array = dedup_pspecs [] (pspecs nqueue');
                     w2 = w1\<lparr>notify_queue := (notify_queue w1)(object := None)\<rparr>
                 in if array \<noteq> [] then mx_stylable_notify_dispatcher object array w2 else w2)"

definition mx_stylable_freeze_notify :: "env \<Rightarrow> addr \<Rightarrow> world \<Rightarrow> world" where
  "mx_stylable_freeze_notify e stylable w =
     (if \<not> MX_IS_STYLABLE e stylable then
        return_if_fail_warning ''mx_stylable_freeze_notify'' ''MX_IS_STYLABLE (stylable)'' w
      else
        g_object_unref (Some stylable)
          (g_object_notify_queue_freeze stylable (g_object_ref (Some stylable) w)))"

text \<open>\<^verbatim>\<open>mx_stylable_thaw_notify\<close> warns, and does not thaw, when the object has no queue
  or the queue is not frozen.\<close>

definition not_frozen_message :: string where
  "not_frozen_message =
     ''mx_stylable_thaw_notify: property-changed notification is not frozen''"

definition mx_stylable_thaw_notify :: "env \<Rightarrow> addr \<Rightarrow> world \<Rightarrow> world" where
  "mx_stylable_thaw_notify e stylable w =
     (if \<not> MX_IS_STYLABLE e stylable then
        return_if_fail_warning ''mx_stylable_thaw_notify'' ''MX_IS_STYLABLE (stylable)'' w
      else
        let w1 = g_object_ref (Some stylable) w;
            w2 = (case g_object_notify_queue_from_object stylable w1 of
                    None \<Rightarrow> g_log Warning not_frozen_message w1
                  | Some nqueue \<Rightarrow>
                      if freeze_count nqueue = 0 then g_log Warning not_frozen_message w1
                      else g_object_notify_queue_thaw stylable w1)
        in g_object_unref (Some stylable) w2)"

text \<open>The property name may be \<^verbatim>\<open>NULL\<close> (\<open>None\<close>).\<close>

definition mx_stylable_notify :: "env \<Rightarrow> addr \<Rightarrow> string option \<Rightarrow> world \<Rightarrow> world" where
  "mx_stylable_notify e stylable property_name w =
     (if \<not> MX_IS_STYLABLE e stylable then
        return_if_fail_warning ''mx_stylable_notify'' ''MX_IS_STYLABLE (stylable)'' w
      else
        case property_name of
          None \<Rightarrow> return_if_fail_warning ''mx_stylable_notify'' ''property_name != NULL'' w
        | Some pname \<Rightarrow>
            let w1 = g_object_ref (Some stylable) w;
                w2 = (case g_param_spec_pool_lookup e (style_property_spec_pool w1) pname
                             (G_OBJECT_TYPE e stylable) True of
                        None \<Rightarrow>
                          g_log Warning
                            (''mx_stylable_notify: object class has no style property named ''
                             @ pname) w1
                      | Some pspec \<Rightarrow>
                          g_object_notify_queue_thaw stylable
                            (g_object_notify_queue_add stylable pspec
                               (g_object_notify_queue_freeze stylable w1)))
            in g_object_unref (Some stylable) w2)"

text \<open>
  \<^verbatim>\<open>mx_stylable_iface_install_property\<close>. The interface pointer and the descriptor
  pointer may fail their type checks (\<open>None\<close>). The accepted descriptor is stored with
  the name of the owner type attached under \<^verbatim>\<open>quark_real_owner\<close>.
\<close>

definition mx_stylable_iface_install_property ::
  "env \<Rightarrow> world MxStylableIface option \<Rightarrow> GType \<Rightarrow> GParamSpec option \<Rightarrow> world \<Rightarrow> world" where
  "mx_stylable_iface_install_property e iface owner_type pspec_ptr w =
     (if iface = None then
        return_if_fail_warning ''mx_stylable_iface_install_property''
          ''MX_IS_STYLABLE_IFACE (iface)'' w
      else if owner_type = G_TYPE_INVALID then
        return_if_fail_warning ''mx_stylable_iface_install_property''
          ''owner_type != G_TYPE_INVALID'' w
      else
        case pspec_ptr of
          None \<Rightarrow>
            return_if_fail_warning ''mx_stylable_iface_install_property''
              ''G_IS_PARAM_SPEC (pspec)'' w
        | Some pspec \<Rightarrow>
            if flags pspec AND G_PARAM_READABLE = 0 then
              return_if_fail_warning ''mx_stylable_iface_install_property''
                ''pspec->flags & G_PARAM_READABLE'' w
            else if flags pspec AND (G_PARAM_CONSTRUCT_ONLY OR G_PARAM_CONSTRUCT) \<noteq> 0 then
              return_if_fail_warning ''mx_stylable_iface_install_property''
                ''!(pspec->flags & (G_PARAM_CONSTRUCT_ONLY | G_PARAM_CONSTRUCT))'' w
            else if g_param_spec_pool_lookup e (style_property_spec_pool w) (name pspec)
                      owner_type False \<noteq> None then
              g_log Warning
                (''class '' @ g_type_name e owner_type
                 @ '' already contains a style property named '' @ name pspec) w
            else
              let stamped = pspec\<lparr>real_owner := Some (g_type_name e owner_type)\<rparr>
              in w\<lparr>style_property_spec_pool :=
                     g_param_spec_pool_insert stamped owner_type (style_property_spec_pool w)\<rparr>)"

text \<open>\<^verbatim>\<open>mx_stylable_get_style\<close> returns the pointer together with the state, which gains a
  critical message when the type check fails. Without an override it reads the datum
  under the string key \<^verbatim>\<open>mx-stylable-style\<close>.\<close>

definition mx_stylable_get_style ::
  "env \<Rightarrow> world MxStylableIface \<Rightarrow> addr \<Rightarrow> world \<Rightarrow> addr option \<times> world" where
  "mx_stylable_get_style e iface stylable w =
     (if \<not> MX_IS_STYLABLE e stylable then
        (None, return_if_fail_warning ''mx_stylable_get_style'' ''MX_IS_STYLABLE (stylable)'' w)
      else
        case get_style iface of
          Some f \<Rightarrow> (f stylable w, w)
        | None \<Rightarrow> (g_object_get_data stylable ''mx-stylable-style'' w, w))"

text \<open>\<^verbatim>\<open>mx_stylable_set_style\<close>. Without an override it stores the style, with a reference
  of its own, under \<^verbatim>\<open>quark_style\<close>. The old style is passed to \<^verbatim>\<open>g_signal_emit\<close> as
  the argument after the detail 0 (no detail).\<close>

definition mx_stylable_set_style ::
  "env \<Rightarrow> world MxStylableIface \<Rightarrow> addr \<Rightarrow> addr option \<Rightarrow> world \<Rightarrow> world" where
  "mx_stylable_set_style e iface stylable style w =
     (if \<not> MX_IS_STYLABLE e stylable then
        return_if_fail_warning ''mx_stylable_set_style'' ''MX_IS_STYLABLE (stylable)'' w
      else
        case style of
          None \<Rightarrow> return_if_fail_warning ''mx_stylable_set_style'' ''MX_IS_STYLE (style)'' w
        | Some s \<Rightarrow>
            if \<not> MX_IS_STYLE e style then
              return_if_fail_warning ''mx_stylable_set_style'' ''MX_IS_STYLE (style)'' w
            else
              let (old_style, w0) = mx_stylable_get_style e iface stylable w;
                  w1 = g_object_ref old_style w0;
                  w2 = (case set_style iface of
                          Some f \<Rightarrow> f stylable s w1
                        | None \<Rightarrow>
                            g_object_set_qdata_full stylable quark_style s
                              (g_object_ref_sink s w1));
                  w3 = g_signal_emit stylable STYLE_CHANGED None [Arg_object old_style] w2;
                  w4 = g_object_unref old_style w3
              in g_object_notify stylable ''style'' w4)"

text \<open>The invariant of the pool that \<^verbatim>\<open>mx_stylable_iface_install_property\<close> keeps:
  every descriptor in it is readable.\<close>

definition pool_readable :: "(string \<times> GType \<rightharpoonup> GParamSpec) \<Rightarrow> bool" where
  "pool_readable pool = (\<forall>k q. pool k = Some q \<longrightarrow> flags q AND G_PARAM_READABLE \<noteq> 0)"

section \<open>Concrete inputs\<close>

text \<open>A small configuration for the closed theorems: object 1 is a stylable instance of
  type 10 (\<^verbatim>\<open>MxWidget\<close>, whose parent is type 20), objects 2 and 3 are styles, each object
  has one reference, nothing is attached, no queue exists and the pool is empty. The
  interface table has no override.\<close>

definition example_env :: env where
  "example_env =
     \<lparr>is_stylable = (\<lambda>a. a = 1),
      is_style = (\<lambda>a. a = 2 \<or> a = 3),
      G_OBJECT_TYPE = (\<lambda>a. 10),
      g_type_name = (\<lambda>t. if t = 10 then ''MxWidget'' else ''GObject''),
      g_type_ancestors = (\<lambda>t. if t = 10 then [20] else [])\<rparr>"

definition default_iface :: "world MxStylableIface" where
  "default_iface = \<lparr>get_style = None, set_style = None\<rparr>"

definition example_world :: world where
  "example_world =
     \<lparr>ref_count = (\<lambda>a. if a = 1 \<or> a = 2 \<or> a = 3 then 1 else 0),
      qdata = (\<lambda>a. Map.empty),
      notify_queue = Map.empty,
      style_property_spec_pool = Map.empty,
      trace = []\<rparr>"

definition x_spacing :: GParamSpec where
  "x_spacing =
     \<lparr>name = ''x-spacing'', flags = G_PARAM_READABLE OR G_PARAM_WRITABLE, value_type = 6,
      real_owner = None\<rparr>"

definition y_spacing :: GParamSpec where
  "y_spacing =
     \<lparr>name = ''y-spacing'', flags = G_PARAM_READABLE OR G_PARAM_WRITABLE, value_type = 6,
      real_owner = None\<rparr>"

text \<open>The same configuration with style 2 attached to object 1 under \<^verbatim>\<open>quark_style\<close>, and
  an interface table whose \<^verbatim>\<open>get_style\<close> returns the style stored under that quark.\<close>

definition example_world_attached :: world where
  "example_world_attached =
     example_world\<lparr>qdata := (\<lambda>a. if a = 1 then [quark_style \<mapsto> 2] else Map.empty)\<rparr>"

definition reading_iface :: "world MxStylableIface" where
  "reading_iface = \<lparr>get_style = Some (\<lambda>stylable w. qdata w stylable quark_style), set_style = None\<rparr>"

text \<open>A descriptor that is readable and writable and is set at construction
  (\<^verbatim>\<open>G_PARAM_CONSTRUCT\<close>), but not only then.\<close>

definition construct_spacing :: GParamSpec where
  "construct_spacing =
     \<lparr>name = ''x-spacing'',
      flags = G_PARAM_READABLE OR G_PARAM_WRITABLE OR G_PARAM_CONSTRUCT, value_type = 6,
      real_owner = None\<rparr>"

text \<open>The configuration with two installed style properties: \<^verbatim>\<open>x-spacing\<close> owned by the
  parent type 20 and \<^verbatim>\<open>y-spacing\<close> owned by type 10.\<close>

definition example_world_pool :: world where
  "example_world_pool =
     example_world\<lparr>style_property_spec_pool :=
       [(''x-spacing'', 20) \<mapsto> x_spacing\<lparr>real_owner := Some ''GObject''\<rparr>,
        (''y-spacing'', 10) \<mapsto> y_spacing\<lparr>real_owner := Some ''MxWidget''\<rparr>]\<rparr>"

text \<open>The configuration with a queue on object 1 that is not frozen.\<close>

definition example_world_thawed :: world where
  "example_world_thawed =
     example_world\<lparr>notify_queue := [1 \<mapsto> \<lparr>pspecs = [], n_pspecs = 0, freeze_count = 0\<rparr>]\<rparr>"

text \<open>The configuration with two installed style properties after one call of
  \<^verbatim>\<open>mx_stylable_freeze_notify\<close> on object 1, and after two.\<close>

definition example_world_frozen :: world where
  "example_world_frozen = mx_stylable_freeze_notify example_env 1 example_world_pool"

definition example_world_frozen_twice :: world where
  "example_world_frozen_twice = mx_stylable_freeze_notify example_env 1 example_world_frozen"

section \<open>Properties of the value coercion code\<close>

subsection \<open>The token scanner\<close>

lemma scan_tokens_nonempty: "scan_tokens d cur s \<noteq> []"
  by (induction s arbitrary: cur) auto

lemma scan_tokens_append:
  "\<forall>c\<in>set t. \<not> d c \<Longrightarrow> scan_tokens d cur (t @ rest) = scan_tokens d (cur @ t) rest"
  by (induction t arbitrary: cur) auto

lemma scan_tokens_delimiter:
  "d c \<Longrightarrow> scan_tokens d cur (c # rest) = cur # scan_tokens d [] rest"
  by simp

lemma scan_tokens_tail:
  "d sp \<Longrightarrow> \<forall>e\<in>set es. \<forall>c\<in>set e. \<not> d c \<Longrightarrow>
   scan_tokens d cur (concat (map (\<lambda>e. sp # e) es)) = cur # es"
proof (induction es arbitrary: cur)
  case Nil
  then show ?case by simp
next
  case (Cons e es)
  have "scan_tokens d [] (e @ concat (map (\<lambda>e. sp # e) es))
        = scan_tokens d e (concat (map (\<lambda>e. sp # e) es))"
    using Cons.prems(2) scan_tokens_append [of e d "[]"] by simp
  with Cons show ?case by simp
qed

lemma scan_tokens_length: "length (scan_tokens d cur s) = Suc (length (filter d s))"
  by (induction s arbitrary: cur) auto

lemma g_strsplit_length:
  "length (g_strsplit s sp) = (if s = [] then 0 else Suc (length (filter (\<lambda>c. c = sp) s)))"
  by (simp add: g_strsplit_def scan_tokens_length)

lemma g_strsplit_join:
  assumes "\<forall>t\<in>set ts. CHR '' '' \<notin> set t" and "join_spaces ts \<noteq> []"
  shows "g_strsplit (join_spaces ts) (CHR '' '') = ts"
proof (cases ts)
  case Nil
  with assms show ?thesis by (simp add: join_spaces_def)
next
  case (Cons t rest)
  have "scan_tokens (\<lambda>c. c = CHR '' '') [] (t @ concat (map (\<lambda>e. CHR '' '' # e) rest))
        = scan_tokens (\<lambda>c. c = CHR '' '') t (concat (map (\<lambda>e. CHR '' '' # e) rest))"
    using assms(1) Cons scan_tokens_append [of t "\<lambda>c. c = CHR '' ''" "[]"] by auto
  also have "\<dots> = t # rest"
    using assms(1) Cons by (intro scan_tokens_tail) auto
  finally show ?thesis using assms(2) Cons by (simp add: g_strsplit_def join_spaces_def)
qed

subsection \<open>The number parser\<close>

lemma strtol_digits_foldl:
  "\<forall>c\<in>set ds. isdigit c \<Longrightarrow>
   strtol_digits acc ds = foldl (\<lambda>a c. 10 * a + digit_value c) acc ds"
  by (induction ds arbitrary: acc) auto

lemma foldl_digits_nonneg:
  "\<forall>c\<in>set ds. isdigit c \<Longrightarrow> 0 \<le> acc \<Longrightarrow>
   0 \<le> foldl (\<lambda>a c. 10 * a + digit_value c) acc ds"
  by (induction ds arbitrary: acc) (auto simp: isdigit_def digit_value_def)

lemma isdigit_not_space: "isdigit c \<Longrightarrow> \<not> isspace c \<and> c \<noteq> CHR ''-'' \<and> c \<noteq> CHR ''+''"
  by (auto simp: isdigit_def isspace_def)

lemma atoi_base10:
  assumes "\<forall>c\<in>set ds. isdigit c" and "base10_value ds < 2 ^ 31"
  shows "atoi ds = base10_value ds"
proof -
  have v: "strtol_digits 0 ds = base10_value ds"
    using assms(1) by (simp add: strtol_digits_foldl base10_value_def)
  have nn: "0 \<le> base10_value ds"
    using assms(1) foldl_digits_nonneg [of ds 0] by (simp add: base10_value_def)
  have "strtol ds = base10_value ds"
  proof (cases ds)
    case Nil
    then show ?thesis by (simp add: strtol_def base10_value_def LONG_MIN_def LONG_MAX_def)
  next
    case (Cons c cs)
    with assms(1) have "isdigit c" by simp
    then have "\<not> isspace c" "c \<noteq> CHR ''-''" "c \<noteq> CHR ''+''"
      using isdigit_not_space by blast+
    with Cons v nn assms(2) show ?thesis
      by (simp add: strtol_def LONG_MIN_def LONG_MAX_def)
  qed
  moreover have "sint (word_of_int (base10_value ds) :: 32 word) = base10_value ds"
    using nn assms(2) by (simp add: sint_sbintrunc' signed_take_bit_int_eq_self)
  ultimately show ?thesis by (simp add: atoi_def)
qed

lemma strtol_digits_no_digit: "\<forall>c\<in>set t. \<not> isdigit c \<Longrightarrow> strtol_digits 0 t = 0"
  by (cases t) auto

lemma atoi_no_digit:
  assumes "\<forall>c\<in>set t. \<not> isdigit c"
  shows "atoi t = 0"
proof -
  define s1 where "s1 = dropWhile isspace t"
  have s1: "\<forall>c\<in>set s1. \<not> isdigit c"
    using assms set_dropWhileD unfolding s1_def by fastforce
  have "(case s1 of
           [] \<Rightarrow> 0
         | c # cs \<Rightarrow>
             if c = CHR ''-'' then - strtol_digits 0 cs
             else if c = CHR ''+'' then strtol_digits 0 cs
             else strtol_digits 0 s1) = 0"
  proof (cases s1)
    case Nil
    then show ?thesis by simp
  next
    case (Cons c cs)
    with s1 have "strtol_digits 0 cs = 0" "strtol_digits 0 s1 = 0"
      by (simp_all add: strtol_digits_no_digit)
    with Cons show ?thesis by simp
  qed
  then have "strtol t = 0"
    unfolding strtol_def s1_def by (simp add: LONG_MIN_def LONG_MAX_def)
  then show ?thesis by (simp add: atoi_def)
qed

subsection \<open>Box edges\<close>

lemma box_edges_shorthand_other:
  "length xs = 0 \<or> 4 < length xs \<Longrightarrow> box_edges_shorthand xs = padding_zero"
  by (induction xs rule: box_edges_shorthand.induct) auto

lemma padding_positional:
  "mx_padding_from_string (Some s) = box_edges_shorthand (map atoi (g_strsplit s (CHR '' '')))"
proof -
  define strv where "strv = g_strsplit s (CHR '' '')"
  consider "length strv = 1" | "length strv = 2" | "length strv = 3" | "length strv = 4"
    | "length strv = 0 \<or> 4 < length strv" by linarith
  then show ?thesis
  proof cases
    case 1
    then obtain a where "strv = [a]" by (auto simp: length_Suc_conv)
    then show ?thesis unfolding strv_def
      by (simp add: mx_padding_from_string_def g_strv_length_def)
  next
    case 2
    then obtain a b where "strv = [a, b]" by (auto simp: length_Suc_conv eval_nat_numeral)
    then show ?thesis unfolding strv_def
      by (simp add: mx_padding_from_string_def g_strv_length_def)
  next
    case 3
    then obtain a b c where "strv = [a, b, c]" by (auto simp: length_Suc_conv eval_nat_numeral)
    then show ?thesis unfolding strv_def
      by (simp add: mx_padding_from_string_def g_strv_length_def)
  next
    case 4
    then obtain a b c d where "strv = [a, b, c, d]"
      by (auto simp: length_Suc_conv eval_nat_numeral)
    then show ?thesis unfolding strv_def
      by (simp add: mx_padding_from_string_def g_strv_length_def)
  next
    case 5
    then have "box_edges_shorthand (map atoi strv) = padding_zero"
      by (intro box_edges_shorthand_other) simp
    moreover from 5 have "length strv \<noteq> 1" "length strv \<noteq> 2" "length strv \<noteq> 3"
      "length strv \<noteq> 4"
      by auto
    ultimately show ?thesis unfolding strv_def
      by (simp add: mx_padding_from_string_def g_strv_length_def Let_def)
  qed
qed

text \<open>
  Claim C6, as amended. \<^verbatim>\<open>mx_padding_from_string\<close> gives the all-zero result for an
  absent text. For a text it splits at every single space character, and at nothing else:
  a text that is not empty has one token more than it has spaces, and tokens without
  spaces, written with one space between neighbours, are read back as they are (so two
  spaces in a row give an empty token, and a tab does not separate). The tokens are mapped
  by position as the shorthand rule says, any count other than one to four giving the
  all-zero result. Each token is read by \<^verbatim>\<open>atoi\<close>: a token of decimal digits below
  \<open>2 ^ 31\<close> has its base-10 value, and a token without any digit is zero.
\<close>

theorem C6_box_edges_split_at_single_spaces:
  "mx_padding_from_string None = padding_zero
   \<and> mx_padding_from_string (Some s) =
       box_edges_shorthand (map atoi (g_strsplit s (CHR '' '')))
   \<and> length (g_strsplit s (CHR '' '')) =
       (if s = [] then 0 else Suc (length (filter (\<lambda>c. c = CHR '' '') s)))
   \<and> ((\<forall>t\<in>set ts. CHR '' '' \<notin> set t) \<and> join_spaces ts \<noteq> [] \<longrightarrow>
        g_strsplit (join_spaces ts) (CHR '' '') = ts)
   \<and> ((\<forall>c\<in>set ds. isdigit c) \<and> base10_value ds < 2 ^ 31 \<longrightarrow> atoi ds = base10_value ds)
   \<and> ((\<forall>c\<in>set w. \<not> isdigit c) \<longrightarrow> atoi w = 0)"
proof -
  have "mx_padding_from_string None = padding_zero"
    by (simp add: mx_padding_from_string_def)
  then show ?thesis
    using padding_positional [of s] g_strsplit_length [of s "CHR '' ''"]
      g_strsplit_join [of ts] atoi_base10 [of ds] atoi_no_digit [of w]
    by blast
qed

theorem C6_box_edges_witness:
  "mx_padding_from_string (Some ''1 2 3 4'') =
     \<lparr>top_p = 1, right_p = 2, bottom_p = 3, left_p = 4\<rparr>
   \<and> length (g_strsplit ''1 2 3 4'' (CHR '' '')) = 4
   \<and> g_strsplit ''10 20'' (CHR '' '') = [''10'', ''20'']
   \<and> atoi ''10'' = 10
   \<and> atoi ''px'' = 0"
proof -
  have h1: "(\<forall>t\<in>set [''10'', ''20'']. CHR '' '' \<notin> set t) \<and> join_spaces [''10'', ''20''] \<noteq> []"
    by (simp add: join_spaces_def)
  have h2: "(\<forall>c\<in>set ''10''. isdigit c) \<and> base10_value ''10'' < 2 ^ 31"
    by (simp add: isdigit_def base10_value_def digit_value_def)
  have h3: "\<forall>c\<in>set ''px''. \<not> isdigit c"
    by (simp add: isdigit_def)
  have j: "join_spaces [''10'', ''20''] = ''10 20''"
    by (simp add: join_spaces_def)
  have v: "base10_value ''10'' = 10"
    by (simp add: base10_value_def digit_value_def)
  have a: "map atoi (g_strsplit ''1 2 3 4'' (CHR '' '')) = [1, 2, 3, 4]"
    by (simp add: g_strsplit_def atoi_def strtol_def isspace_def isdigit_def digit_value_def
        LONG_MIN_def LONG_MAX_def)
  show ?thesis
    using C6_box_edges_split_at_single_spaces [of "''1 2 3 4''" "[''10'', ''20'']" "''10''" "''px''"]
      h1 h2 h3
    by (simp add: j v a)
qed

text \<open>
  Claim C6 as it is written: tokens are separated by white space. A tab is white space,
  but the code splits at spaces only: it reads \<^verbatim>\<open>1<TAB>2\<close> as the single token whose
  number is 1 and sets all four edges to 1, where two tokens would set top and bottom to 1
  and left and right to 2.
\<close>

theorem C6_tab_counterexample:
  "mx_padding_from_string (Some [CHR ''1'', CHR 0x09, CHR ''2'']) =
     \<lparr>top_p = 1, right_p = 1, bottom_p = 1, left_p = 1\<rparr>
   \<and> spec_parse_box_edges [CHR ''1'', CHR 0x09, CHR ''2''] =
     \<lparr>top_p = 1, right_p = 2, bottom_p = 1, left_p = 2\<rparr>
   \<and> mx_padding_from_string (Some [CHR ''1'', CHR 0x09, CHR ''2'']) \<noteq>
     spec_parse_box_edges [CHR ''1'', CHR 0x09, CHR ''2'']"
  by (simp add: mx_padding_from_string_def spec_parse_box_edges_def spec_tokenize_def
      g_strsplit_def g_strv_length_def atoi_def strtol_def isspace_def isdigit_def
      digit_value_def LONG_MIN_def LONG_MAX_def)

lemma padding_two_spaces:
  "mx_padding_from_string (Some ''10  20'') =
     \<lparr>top_p = 10, right_p = 0, bottom_p = 20, left_p = 0\<rparr>"
  by (simp add: mx_padding_from_string_def g_strsplit_def g_strv_length_def atoi_def
      strtol_def isspace_def isdigit_def digit_value_def LONG_MIN_def LONG_MAX_def)

text \<open>The examples of section 8 for box edges.\<close>

lemma padding_examples:
  "mx_padding_from_string (Some ''10'') =
     \<lparr>top_p = 10, right_p = 10, bottom_p = 10, left_p = 10\<rparr>"
  "mx_padding_from_string (Some ''10 20'') =
     \<lparr>top_p = 10, right_p = 20, bottom_p = 10, left_p = 20\<rparr>"
  "mx_padding_from_string (Some '''') = padding_zero"
  by (simp_all add: mx_padding_from_string_def g_strsplit_def g_strv_length_def atoi_def
      strtol_def isspace_def isdigit_def digit_value_def LONG_MIN_def LONG_MAX_def)

subsection \<open>Bordered images\<close>

lemma take1_root: "(take (Suc 0) path = ''/'') = (path \<noteq> [] \<and> hd path = CHR ''/'')"
  by (cases path) auto

lemma border_image_none:
  "mx_border_image_set_from_string ''none'' filename = Inr (border_image_zero, [])"
  by (simp add: mx_border_image_set_from_string_def)

text \<open>With at least three tokens the first of which is \<^verbatim>\<open>url\<close>, the function returns: the
  third token is the path, and the tokens from the sixth on give the insets.\<close>

lemma border_image_three_tokens:
  assumes "str \<noteq> ''none''"
    and "g_strsplit_set str border_image_delimiters = strv"
    and "3 \<le> length strv"
    and "strv ! 0 = ''url''"
  shows "mx_border_image_set_from_string str filename =
           Inr (border_image_of (resolve_path filename (strv ! 2))
                  (box_edges_shorthand (map atoi (drop 5 strv))), [])"
proof -
  consider "length strv = 6" | "length strv = 7" | "length strv = 8" | "length strv = 9"
    | "length strv < 6 \<or> 9 < length strv" by linarith
  then show ?thesis
  proof cases
    case 1
    then obtain a b c d e f where "strv = [a, b, c, d, e, f]"
      by (auto simp: length_Suc_conv eval_nat_numeral)
    with assms show ?thesis
      by (simp add: mx_border_image_set_from_string_def g_strv_length_def strv_nth_def
          take1_root resolve_path_def border_image_of_def border_image_zero_def)
  next
    case 2
    then obtain a b c d e f g where "strv = [a, b, c, d, e, f, g]"
      by (auto simp: length_Suc_conv eval_nat_numeral)
    with assms show ?thesis
      by (simp add: mx_border_image_set_from_string_def g_strv_length_def strv_nth_def
          take1_root resolve_path_def border_image_of_def border_image_zero_def)
  next
    case 3
    then obtain a b c d e f g h where "strv = [a, b, c, d, e, f, g, h]"
      by (auto simp: length_Suc_conv eval_nat_numeral)
    with assms show ?thesis
      by (simp add: mx_border_image_set_from_string_def g_strv_length_def strv_nth_def
          take1_root resolve_path_def border_image_of_def border_image_zero_def)
  next
    case 4
    then obtain a b c d e f g h i where "strv = [a, b, c, d, e, f, g, h, i]"
      by (auto simp: length_Suc_conv eval_nat_numeral)
    with assms show ?thesis
      by (simp add: mx_border_image_set_from_string_def g_strv_length_def strv_nth_def
          take1_root resolve_path_def border_image_of_def border_image_zero_def)
  next
    case 5
    then have "length (map atoi (drop 5 strv)) = 0 \<or> 4 < length (map atoi (drop 5 strv))"
      by auto
    then have z: "box_edges_shorthand (map atoi (drop 5 strv)) = padding_zero"
      by (rule box_edges_shorthand_other)
    from 5 have n: "length strv \<noteq> 6" "length strv \<noteq> 7" "length strv \<noteq> 8" "length strv \<noteq> 9"
      by auto
    from assms(3) have m: "\<not> length strv < 2" "2 < length strv"
      by auto
    show ?thesis
      unfolding mx_border_image_set_from_string_def Let_def g_strv_length_def strv_nth_def
        assms(2) z
      using assms(1,4) n m
      by (simp add: take1_root resolve_path_def border_image_of_def border_image_zero_def
          padding_zero_def)
  qed
qed

lemma border_edges_of [simp]: "border_edges (border_image_of u p) = p"
  by (simp add: border_edges_def border_image_of_def)

lemma uri_of [simp]: "uri (border_image_of u p) = Some u"
  by (simp add: border_image_of_def)

text \<open>The tokens of the two forms of the shorthand.\<close>

lemma url_quoted_tokens:
  assumes "q = CHR 0x22 \<or> q = CHR 0x27"
    and "delimiter_free path"
    and "\<forall>e\<in>set es. delimiter_free e"
  shows "g_strsplit_set (url_quoted q path es) border_image_delimiters =
           [''url'', [], path, [], []] @ es"
proof -
  let ?d = "\<lambda>c. c \<in> set border_image_delimiters"
  have dq: "?d q" using assms(1) by (auto simp: border_image_delimiters_def)
  have dp: "\<forall>c\<in>set path. \<not> ?d c"
    using assms(2) by (simp add: delimiter_free_def list_all_iff)
  have de: "\<forall>e\<in>set es. \<forall>c\<in>set e. \<not> ?d c"
    using assms(3) by (simp add: delimiter_free_def list_all_iff)
  have sp: "?d (CHR '' '')" by (simp add: border_image_delimiters_def)
  have tail: "scan_tokens ?d [] (edge_suffix es) = [] # es"
    unfolding edge_suffix_def using sp de by (rule scan_tokens_tail)
  have "scan_tokens ?d [] (path @ q # CHR '')'' # edge_suffix es)
        = scan_tokens ?d path (q # CHR '')'' # edge_suffix es)"
    using scan_tokens_append [OF dp, of "[]"] by simp
  also have "\<dots> = path # [] # scan_tokens ?d [] (edge_suffix es)"
    using dq by (simp add: border_image_delimiters_def)
  finally have inner: "scan_tokens ?d [] (path @ q # CHR '')'' # edge_suffix es)
        = path # [] # [] # es"
    using tail by simp
  have "scan_tokens ?d [] (url_quoted q path es)
        = ''url'' # [] # scan_tokens ?d [] (path @ q # CHR '')'' # edge_suffix es)"
    using dq by (simp add: url_quoted_def border_image_delimiters_def)
  with inner show ?thesis
    by (simp add: g_strsplit_set_def url_quoted_def)
qed

lemma url_bare_tokens:
  assumes "delimiter_free path"
    and "\<forall>e\<in>set es. delimiter_free e"
  shows "g_strsplit_set (url_bare path es) border_image_delimiters = [''url'', path, []] @ es"
proof -
  let ?d = "\<lambda>c. c \<in> set border_image_delimiters"
  have dp: "\<forall>c\<in>set path. \<not> ?d c"
    using assms(1) by (simp add: delimiter_free_def list_all_iff)
  have de: "\<forall>e\<in>set es. \<forall>c\<in>set e. \<not> ?d c"
    using assms(2) by (simp add: delimiter_free_def list_all_iff)
  have sp: "?d (CHR '' '')" by (simp add: border_image_delimiters_def)
  have tail: "scan_tokens ?d [] (edge_suffix es) = [] # es"
    unfolding edge_suffix_def using sp de by (rule scan_tokens_tail)
  have "scan_tokens ?d [] (path @ CHR '')'' # edge_suffix es)
        = scan_tokens ?d path (CHR '')'' # edge_suffix es)"
    using scan_tokens_append [OF dp, of "[]"] by simp
  also have "\<dots> = path # scan_tokens ?d [] (edge_suffix es)"
    by (simp add: border_image_delimiters_def)
  finally have inner: "scan_tokens ?d [] (path @ CHR '')'' # edge_suffix es) = path # [] # es"
    using tail by simp
  have "scan_tokens ?d [] (url_bare path es)
        = ''url'' # scan_tokens ?d [] (path @ CHR '')'' # edge_suffix es)"
    by (simp add: url_bare_def border_image_delimiters_def)
  with inner show ?thesis
    by (simp add: g_strsplit_set_def url_bare_def)
qed

lemma url_forms_not_none: "url_quoted q path es \<noteq> ''none''" "url_bare path es \<noteq> ''none''"
  by (simp_all add: url_quoted_def url_bare_def)

text \<open>
  Claim C7. The text \<^verbatim>\<open>none\<close> gives the empty descriptor without a diagnostic. For any
  other text whose tokens (split at space, parentheses and both quote characters) are at
  least three with \<^verbatim>\<open>url\<close> first, the function returns without a diagnostic: the uri
  is the third token when that starts with \<^verbatim>\<open>/\<close> and otherwise the directory of the
  base path, \<^verbatim>\<open>/\<close> and the third token; the insets are the positional shorthand of box
  edges on the tokens from the sixth on, so that exactly 6, 7, 8 and 9 tokens give the
  one-, two-, three- and four-value forms and every other count leaves the insets zero.
\<close>

theorem C7_border_image_well_formed:
  "mx_border_image_set_from_string ''none'' filename = Inr (border_image_zero, [])
   \<and> (str \<noteq> ''none'' \<and> g_strsplit_set str border_image_delimiters = strv
        \<and> 3 \<le> length strv \<and> strv ! 0 = ''url'' \<longrightarrow>
        mx_border_image_set_from_string str filename =
          Inr (border_image_of
                 (if strv ! 2 \<noteq> [] \<and> hd (strv ! 2) = CHR ''/'' then strv ! 2
                  else g_path_get_dirname filename @ ''/'' @ strv ! 2)
                 (box_edges_shorthand (map atoi (drop 5 strv))), [])
        \<and> (length strv = 6 \<longrightarrow> drop 5 strv = [strv ! 5])
        \<and> (length strv = 7 \<longrightarrow> drop 5 strv = [strv ! 5, strv ! 6])
        \<and> (length strv = 8 \<longrightarrow> drop 5 strv = [strv ! 5, strv ! 6, strv ! 7])
        \<and> (length strv = 9 \<longrightarrow> drop 5 strv = [strv ! 5, strv ! 6, strv ! 7, strv ! 8])
        \<and> (length strv < 6 \<or> 9 < length strv \<longrightarrow>
             box_edges_shorthand (map atoi (drop 5 strv)) = padding_zero))"
proof -
  have d6: "length strv = 6 \<longrightarrow> drop 5 strv = [strv ! 5]"
    by (auto simp: length_Suc_conv eval_nat_numeral)
  have d7: "length strv = 7 \<longrightarrow> drop 5 strv = [strv ! 5, strv ! 6]"
    by (auto simp: length_Suc_conv eval_nat_numeral)
  have d8: "length strv = 8 \<longrightarrow> drop 5 strv = [strv ! 5, strv ! 6, strv ! 7]"
    by (auto simp: length_Suc_conv eval_nat_numeral)
  have d9: "length strv = 9 \<longrightarrow> drop 5 strv = [strv ! 5, strv ! 6, strv ! 7, strv ! 8]"
    by (auto simp: length_Suc_conv eval_nat_numeral)
  have other: "length strv < 6 \<or> 9 < length strv \<longrightarrow>
      box_edges_shorthand (map atoi (drop 5 strv)) = padding_zero"
    by (auto intro!: box_edges_shorthand_other)
  show ?thesis
    using border_image_none [of filename] border_image_three_tokens [of str strv filename]
      d6 d7 d8 d9 other
    unfolding resolve_path_def by blast
qed

theorem C7_border_image_witness:
  "mx_border_image_set_from_string (url_quoted (CHR 0x22) ''/abs/img.png'' [''1'', ''2'', ''3'', ''4''])
     ''/a/b/style.css'' =
   Inr (\<lparr>uri = Some ''/abs/img.png'', top_b = 1, right_b = 2, bottom_b = 3, left_b = 4\<rparr>, [])"
proof -
  let ?str = "url_quoted (CHR 0x22) ''/abs/img.png'' [''1'', ''2'', ''3'', ''4'']"
  let ?strv = "[''url'', [], ''/abs/img.png'', [], [], ''1'', ''2'', ''3'', ''4'']"
  have t: "g_strsplit_set ?str border_image_delimiters = ?strv"
    by (simp add: url_quoted_def edge_suffix_def g_strsplit_set_def border_image_delimiters_def)
  have n: "?str \<noteq> ''none''"
    by (simp add: url_quoted_def)
  have a: "map atoi [''1'', ''2'', ''3'', ''4''] = [1, 2, 3, 4]"
    by (simp add: atoi_def strtol_def isspace_def isdigit_def digit_value_def
        LONG_MIN_def LONG_MAX_def)
  show ?thesis
    using C7_border_image_well_formed [of "''/a/b/style.css''" ?str ?strv] t n a
    by (simp add: border_image_of_def)
qed

text \<open>
  Claim C8, as amended. Take a path and edge tokens none of which contains a space, a
  parenthesis or a quote character, and write the shorthand as \<^verbatim>\<open>url(\<close>, the path,
  \<^verbatim>\<open>)\<close> and then every edge token after one space. When the path stands between two
  quote characters (both double or both single), the uri is the resolved path and the
  insets are the positional shorthand of all the edge tokens. When the path is bare, the
  two empty tokens that the quotes delimit are missing, so every later token stands two
  places earlier: the path is read as empty, the uri is the directory of the base path
  and \<^verbatim>\<open>/\<close>, and the insets are the positional shorthand of the edge tokens after the
  first two.
\<close>

theorem C8_quoted_and_bare_path:
  assumes "q = CHR 0x22 \<or> q = CHR 0x27"
    and "delimiter_free path"
    and "\<forall>e\<in>set es. delimiter_free e"
  shows "mx_border_image_set_from_string (url_quoted q path es) filename =
           Inr (border_image_of (resolve_path filename path)
                  (box_edges_shorthand (map atoi es)), [])
         \<and> mx_border_image_set_from_string (url_bare path es) filename =
           Inr (border_image_of (g_path_get_dirname filename @ ''/'')
                  (box_edges_shorthand (map atoi (drop 2 es))), [])"
proof -
  have "mx_border_image_set_from_string (url_quoted q path es) filename =
          Inr (border_image_of (resolve_path filename (([''url'', [], path, [], []] @ es) ! 2))
                 (box_edges_shorthand (map atoi (drop 5 ([''url'', [], path, [], []] @ es)))), [])"
    using url_forms_not_none(1) url_quoted_tokens [OF assms]
    by (rule border_image_three_tokens) simp_all
  moreover have "mx_border_image_set_from_string (url_bare path es) filename =
          Inr (border_image_of (resolve_path filename (([''url'', path, []] @ es) ! 2))
                 (box_edges_shorthand (map atoi (drop 5 ([''url'', path, []] @ es)))), [])"
    using url_forms_not_none(2) url_bare_tokens [OF assms(2,3)]
    by (rule border_image_three_tokens) simp_all
  ultimately show ?thesis
    by (simp add: resolve_path_def)
qed

theorem C8_quoted_and_bare_witness:
  "mx_border_image_set_from_string (url_quoted (CHR 0x27) ''img.png'' [''3'']) ''/a/b/style.css'' =
     Inr (\<lparr>uri = Some ''/a/b/img.png'', top_b = 3, right_b = 3, bottom_b = 3, left_b = 3\<rparr>, [])
   \<and> mx_border_image_set_from_string (url_bare ''img.png'' [''3'']) ''/a/b/style.css'' =
     Inr (\<lparr>uri = Some ''/a/b/'', top_b = 0, right_b = 0, bottom_b = 0, left_b = 0\<rparr>, [])"
proof -
  have h: "delimiter_free ''img.png'' \<and> (\<forall>e\<in>set [''3'']. delimiter_free e)"
    by (simp add: delimiter_free_def border_image_delimiters_def)
  have a: "atoi ''3'' = 3"
    by (simp add: atoi_def strtol_def isspace_def isdigit_def digit_value_def
        LONG_MIN_def LONG_MAX_def)
  have d: "g_path_get_dirname ''/a/b/style.css'' = ''/a/b''"
    by (simp add: g_path_get_dirname_def)
  show ?thesis
    using C8_quoted_and_bare_path [of "CHR 0x27" "''img.png''" "[''3'']" "''/a/b/style.css''"] h
    by (simp add: a d border_image_of_def resolve_path_def padding_zero_def)
qed

text \<open>
  Claim C8 as it is written: the same edge tokens give the same insets whether the path is
  quoted or bare. With the edge tokens 1 2 3 4 the quoted form gives the insets 1, 2, 3, 4
  and the bare form gives 3, 4, 3, 4 (and loses the path).
\<close>

theorem C8_bare_path_counterexample:
  "mx_border_image_set_from_string (url_quoted (CHR 0x22) ''a.png'' [''1'', ''2'', ''3'', ''4''])
     ''/a/b/style.css'' =
     Inr (\<lparr>uri = Some ''/a/b/a.png'', top_b = 1, right_b = 2, bottom_b = 3, left_b = 4\<rparr>, [])
   \<and> mx_border_image_set_from_string (url_bare ''a.png'' [''1'', ''2'', ''3'', ''4''])
     ''/a/b/style.css'' =
     Inr (\<lparr>uri = Some ''/a/b/'', top_b = 3, right_b = 4, bottom_b = 3, left_b = 4\<rparr>, [])
   \<and> url_bare ''a.png'' [''1'', ''2'', ''3'', ''4''] = ''url(a.png) 1 2 3 4''"
  by (simp add: mx_border_image_set_from_string_def url_quoted_def url_bare_def edge_suffix_def
      g_strsplit_set_def border_image_delimiters_def g_strv_length_def strv_nth_def
      g_path_get_dirname_def border_image_zero_def atoi_def strtol_def isspace_def isdigit_def
      digit_value_def LONG_MIN_def LONG_MAX_def)

text \<open>
  Claim C2 fails on the code. The guard before the path is read is \<^verbatim>\<open>n_tokens < 2\<close>,
  and the next statement reads \<^verbatim>\<open>strv[2][0]\<close>: with exactly two tokens, \<^verbatim>\<open>url\<close> first,
  \<^verbatim>\<open>strv[2]\<close> is the \<^verbatim>\<open>NULL\<close> that ends the vector and the function reads through it.
  The text \<^verbatim>\<open>url x\<close> is such an input.
\<close>

theorem C2_two_tokens_null_dereference:
  "g_strsplit_set ''url x'' border_image_delimiters = [''url'', ''x'']
   \<and> mx_border_image_set_from_string ''url x'' ''/a/b/style.css'' = Inl Null_dereference"
  by (simp add: mx_border_image_set_from_string_def g_strsplit_set_def
      border_image_delimiters_def g_strv_length_def strv_nth_def)

text \<open>Every text with exactly two tokens, \<^verbatim>\<open>url\<close> first, takes that path; with fewer than
  two tokens or another first token the function returns the empty descriptor and one
  diagnostic.\<close>

lemma border_image_two_tokens:
  assumes "g_strsplit_set str border_image_delimiters = [''url'', t]"
  shows "mx_border_image_set_from_string str filename = Inl Null_dereference"
proof -
  have "str \<noteq> ''none''"
    using assms by (auto simp: g_strsplit_set_def border_image_delimiters_def)
  with assms show ?thesis
    by (simp add: mx_border_image_set_from_string_def g_strv_length_def strv_nth_def)
qed

lemma border_image_malformed:
  assumes "str \<noteq> ''none''"
    and "length (g_strsplit_set str border_image_delimiters) < 2
         \<or> g_strsplit_set str border_image_delimiters ! 0 \<noteq> ''url''"
  shows "mx_border_image_set_from_string str filename =
           Inr (border_image_zero, [could_not_parse str])"
  using assms by (auto simp: mx_border_image_set_from_string_def g_strv_length_def Let_def)

section \<open>Properties of \<^verbatim>\<open>mx-stylable.c\<close>\<close>

subsection \<open>What each runtime call changes\<close>

lemma g_log_fields [simp]:
  "ref_count (g_log l m w) = ref_count w"
  "qdata (g_log l m w) = qdata w"
  "notify_queue (g_log l m w) = notify_queue w"
  "style_property_spec_pool (g_log l m w) = style_property_spec_pool w"
  "trace (g_log l m w) = trace w @ [Diagnostic l m]"
  by (simp_all add: g_log_def)

lemma return_if_fail_warning_fields [simp]:
  "ref_count (return_if_fail_warning f x w) = ref_count w"
  "qdata (return_if_fail_warning f x w) = qdata w"
  "notify_queue (return_if_fail_warning f x w) = notify_queue w"
  "style_property_spec_pool (return_if_fail_warning f x w) = style_property_spec_pool w"
  by (simp_all add: return_if_fail_warning_def)

lemma g_object_ref_fields [simp]:
  "qdata (g_object_ref x w) = qdata w"
  "notify_queue (g_object_ref x w) = notify_queue w"
  "style_property_spec_pool (g_object_ref x w) = style_property_spec_pool w"
  by (simp_all add: g_object_ref_def split: option.splits)

lemma g_object_unref_fields [simp]:
  "qdata (g_object_unref x w) = qdata w"
  "notify_queue (g_object_unref x w) = notify_queue w"
  "style_property_spec_pool (g_object_unref x w) = style_property_spec_pool w"
  by (simp_all add: g_object_unref_def split: option.splits)

lemma g_object_ref_live:
  "0 < ref_count w a \<Longrightarrow>
   g_object_ref (Some a) w = w\<lparr>ref_count := (ref_count w)(a := ref_count w a + 1)\<rparr>"
  by (simp add: g_object_ref_def)

lemma g_object_unref_live:
  "0 < ref_count w a \<Longrightarrow>
   g_object_unref (Some a) w = w\<lparr>ref_count := (ref_count w)(a := ref_count w a - 1)\<rparr>"
  by (simp add: g_object_unref_def)

lemma g_object_ref_null:
  "g_object_ref None w = g_log Critical ''g_object_ref: assertion G_IS_OBJECT (object) failed'' w"
  by (simp add: g_object_ref_def)

lemma g_object_unref_null:
  "g_object_unref None w =
     g_log Critical ''g_object_unref: assertion G_IS_OBJECT (object) failed'' w"
  by (simp add: g_object_unref_def)

lemma g_signal_emit_fields [simp]:
  "ref_count (g_signal_emit a sg d args w) = ref_count w"
  "qdata (g_signal_emit a sg d args w) = qdata w"
  "notify_queue (g_signal_emit a sg d args w) = notify_queue w"
  "style_property_spec_pool (g_signal_emit a sg d args w) = style_property_spec_pool w"
  "trace (g_signal_emit a sg d args w) =
     trace w @ [Emission a sg d (take (n_params (stylable_signals sg)) args)]"
  by (simp_all add: g_signal_emit_def)

lemma g_object_notify_fields [simp]:
  "ref_count (g_object_notify a p w) = ref_count w"
  "qdata (g_object_notify a p w) = qdata w"
  "notify_queue (g_object_notify a p w) = notify_queue w"
  "style_property_spec_pool (g_object_notify a p w) = style_property_spec_pool w"
  "trace (g_object_notify a p w) = trace w @ [Property_notify a p]"
  by (simp_all add: g_object_notify_def)

lemma g_object_set_qdata_full_fields [simp]:
  "qdata (g_object_set_qdata_full a q d w) = (qdata w)(a := (qdata w a)(q \<mapsto> d))"
  "notify_queue (g_object_set_qdata_full a q d w) = notify_queue w"
  "style_property_spec_pool (g_object_set_qdata_full a q d w) = style_property_spec_pool w"
  by (simp_all add: g_object_set_qdata_full_def Let_def split: option.splits)

lemma ref_unref_same:
  "0 < ref_count w a \<Longrightarrow> g_object_unref (Some a) (g_object_ref (Some a) w) = w"
  by (simp add: g_object_ref_def g_object_unref_def)

lemma stylable_signals_params [simp]:
  "n_params (stylable_signals STYLE_CHANGED) = 0"
  "n_params (stylable_signals CHANGED) = 0"
  "n_params (stylable_signals STYLE_NOTIFY) = 1"
  by (simp_all add: stylable_signals_def)

subsection \<open>Attaching a style\<close>

lemma get_style_state:
  "MX_IS_STYLABLE e stylable \<Longrightarrow> snd (mx_stylable_get_style e iface stylable w) = w"
  by (simp add: mx_stylable_get_style_def split: option.splits)

text \<open>The steps of \<^verbatim>\<open>mx_stylable_set_style\<close> once the two type checks have passed and
  there is no \<^verbatim>\<open>set_style\<close> override.\<close>

lemma set_style_steps:
  assumes "MX_IS_STYLABLE e stylable" and "MX_IS_STYLE e (Some s)" and "set_style iface = None"
  shows "mx_stylable_set_style e iface stylable (Some s) w =
           g_object_notify stylable ''style''
             (g_object_unref (fst (mx_stylable_get_style e iface stylable w))
                (g_signal_emit stylable STYLE_CHANGED None
                   [Arg_object (fst (mx_stylable_get_style e iface stylable w))]
                   (g_object_set_qdata_full stylable quark_style s
                      (g_object_ref_sink s
                         (g_object_ref (fst (mx_stylable_get_style e iface stylable w)) w)))))"
proof -
  obtain old w0 where g: "mx_stylable_get_style e iface stylable w = (old, w0)"
    by (cases "mx_stylable_get_style e iface stylable w")
  with get_style_state [OF assms(1), of iface w] have "w0 = w" by simp
  with g assms show ?thesis
    by (simp add: mx_stylable_set_style_def)
qed

lemma emitted_runtime [simp]:
  "emitted (g_log l m w) = emitted w"
  "emitted (g_object_ref x w) = emitted w"
  "emitted (g_object_unref x w) = emitted w"
  "emitted (g_object_set_qdata_full a q d w) = emitted w"
  "emitted (g_signal_emit a sg dt args w) =
     emitted w @ [Emission a sg dt (take (n_params (stylable_signals sg)) args)]"
  "emitted (g_object_notify a p w) = emitted w @ [Property_notify a p]"
  by (simp_all add: emitted_def g_log_def g_object_ref_def g_object_unref_def
      g_object_set_qdata_full_def g_signal_emit_def g_object_notify_def Let_def
      split: option.splits)

text \<open>On every call that passes the two type checks and has no \<^verbatim>\<open>set_style\<close> override,
  \<^verbatim>\<open>mx_stylable_set_style\<close> emits \<^verbatim>\<open>style-changed\<close>, without a parameter, and then the
  notify for \<^verbatim>\<open>style\<close>; it stores the style under \<^verbatim>\<open>quark_style\<close> and leaves every
  other datum as it was.\<close>

lemma set_style_emitted:
  assumes "MX_IS_STYLABLE e stylable" and "MX_IS_STYLE e (Some s)" and "set_style iface = None"
  shows "emitted (mx_stylable_set_style e iface stylable (Some s) w) =
           emitted w @ [Emission stylable STYLE_CHANGED None [], Property_notify stylable ''style'']"
  by (simp add: set_style_steps [OF assms] g_object_ref_sink_def)

lemma set_style_qdata:
  assumes "MX_IS_STYLABLE e stylable" and "MX_IS_STYLE e (Some s)" and "set_style iface = None"
  shows "qdata (mx_stylable_set_style e iface stylable (Some s) w) =
           (qdata w)(stylable := (qdata w stylable)(quark_style \<mapsto> s))"
  by (simp add: set_style_steps [OF assms] g_object_ref_sink_def)

text \<open>Without overrides, \<^verbatim>\<open>mx_stylable_get_style\<close> after \<^verbatim>\<open>mx_stylable_set_style\<close> returns
  what it returned before: the two functions use different keys.\<close>

lemma default_get_style_ignores_set_style:
  assumes "MX_IS_STYLABLE e stylable" and "MX_IS_STYLE e (Some s)"
  shows "fst (mx_stylable_get_style e default_iface stylable
               (mx_stylable_set_style e default_iface stylable (Some s) w))
         = fst (mx_stylable_get_style e default_iface stylable w)"
proof -
  have "set_style default_iface = None" by (simp add: default_iface_def)
  from set_style_qdata [OF assms this, of w] assms(1) show ?thesis
    by (simp add: mx_stylable_get_style_def default_iface_def g_object_get_data_def
        quark_style_def)
qed

text \<open>
  Claim C1 fails on the code. \<^verbatim>\<open>mx_stylable_set_style\<close> stores the style under
  \<^verbatim>\<open>quark_style\<close>, the quark of \<^verbatim>\<open>mx-stylable-style-quark\<close>, and
  \<^verbatim>\<open>mx_stylable_get_style\<close> reads the datum under the key \<^verbatim>\<open>mx-stylable-style\<close>. On an
  object with nothing attached, after style 2 is set the style is stored, and the getter
  returns \<^verbatim>\<open>NULL\<close>.
\<close>

theorem C1_default_get_style_after_set_style:
  "qdata (mx_stylable_set_style example_env default_iface 1 (Some 2) example_world) 1 quark_style
     = Some 2
   \<and> fst (mx_stylable_get_style example_env default_iface 1
           (mx_stylable_set_style example_env default_iface 1 (Some 2) example_world)) = None"
  by (simp add: mx_stylable_get_style_def mx_stylable_set_style_def default_iface_def
      example_env_def example_world_def MX_IS_STYLABLE_def MX_IS_STYLE_def
      g_object_get_data_def g_object_set_qdata_full_def g_object_ref_sink_def
      g_object_ref_def g_object_unref_def g_log_def g_signal_emit_def g_object_notify_def
      quark_style_def)

text \<open>
  Claim C3 fails on the code. \<^verbatim>\<open>style-changed\<close> is registered with no parameter, so the
  old style that \<^verbatim>\<open>mx_stylable_set_style\<close> passes to \<^verbatim>\<open>g_signal_emit\<close> is not read and
  the handlers receive none, although the comment on the signal declares the parameter
  \<^verbatim>\<open>old_style\<close>. With style 2 attached and a \<^verbatim>\<open>get_style\<close> that returns it, setting
  style 3 emits \<^verbatim>\<open>style-changed\<close> without a parameter, then the notify for \<^verbatim>\<open>style\<close>.
  Without overrides the old style passed is moreover \<^verbatim>\<open>NULL\<close> (the key of claim C1), and
  the reference calls on it log two critical messages.
\<close>

theorem C3_style_changed_has_no_payload:
  "trace (mx_stylable_set_style example_env reading_iface 1 (Some 3) example_world_attached)
     = [Emission 1 STYLE_CHANGED None [], Property_notify 1 ''style'']
   \<and> trace (mx_stylable_set_style example_env default_iface 1 (Some 3) example_world_attached)
     = [Diagnostic Critical ''g_object_ref: assertion G_IS_OBJECT (object) failed'',
        Emission 1 STYLE_CHANGED None [],
        Diagnostic Critical ''g_object_unref: assertion G_IS_OBJECT (object) failed'',
        Property_notify 1 ''style'']"
  by (simp add: mx_stylable_get_style_def mx_stylable_set_style_def default_iface_def
      reading_iface_def example_env_def example_world_def example_world_attached_def
      MX_IS_STYLABLE_def MX_IS_STYLE_def stylable_signals_def
      g_object_get_data_def g_object_set_qdata_full_def g_object_ref_sink_def
      g_object_ref_def g_object_unref_def g_log_def g_signal_emit_def g_object_notify_def
      quark_style_def)

subsection \<open>Reference counts\<close>

lemma set_style_ref_count:
  assumes "MX_IS_STYLABLE e stylable" and "MX_IS_STYLE e (Some s)" and "set_style iface = None"
    and "0 < ref_count w s"
    and "\<forall>p. qdata w stylable quark_style = Some p \<longrightarrow> 0 < ref_count w p"
    and "\<forall>old. fst (mx_stylable_get_style e iface stylable w) = Some old \<longrightarrow> 0 < ref_count w old"
  shows "ref_count (mx_stylable_set_style e iface stylable (Some s) w) a =
           ref_count w a + (if a = s then 1 else 0)
             - (if qdata w stylable quark_style = Some a then 1 else 0)"
proof -
  define old where "old = fst (mx_stylable_get_style e iface stylable w)"
  define prev where "prev = qdata w stylable quark_style"
  have live: "\<forall>x. old = Some x \<longrightarrow> 0 < ref_count w x" "\<forall>p. prev = Some p \<longrightarrow> 0 < ref_count w p"
    using assms(5,6) by (simp_all add: old_def prev_def)
  have "ref_count (g_object_unref old
          (g_signal_emit stylable STYLE_CHANGED None [Arg_object old]
             (g_object_set_qdata_full stylable quark_style s
                (g_object_ref_sink s (g_object_ref old w))))) a =
        ref_count w a + (if a = s then 1 else 0) - (if prev = Some a then 1 else 0)"
  proof (cases old)
    case None
    show ?thesis
    proof (cases prev)
      case pn: None
      with None assms(4) show ?thesis
        by (auto simp: prev_def [symmetric] g_object_ref_def g_object_unref_def
            g_object_ref_sink_def g_object_set_qdata_full_def Let_def g_log_def)
    next
      case (Some p)
      with None assms(4) live(2) show ?thesis
        by (auto simp: prev_def [symmetric] g_object_ref_def g_object_unref_def
            g_object_ref_sink_def g_object_set_qdata_full_def Let_def g_log_def)
    qed
  next
    case (Some x)
    then have x: "0 < ref_count w x" using live(1) by simp
    show ?thesis
    proof (cases prev)
      case None
      with Some x assms(4) show ?thesis
        by (auto simp: prev_def [symmetric] g_object_ref_def g_object_unref_def
            g_object_ref_sink_def g_object_set_qdata_full_def Let_def g_log_def)
    next
      case sp: (Some p)
      with Some x assms(4) live(2) show ?thesis
        by (auto simp: prev_def [symmetric] g_object_ref_def g_object_unref_def
            g_object_ref_sink_def g_object_set_qdata_full_def Let_def g_log_def)
    qed
  qed
  then show ?thesis
    by (simp add: set_style_steps [OF assms(1,2,3)] old_def prev_def)
qed

text \<open>
  Claim C4, as amended. On every call of \<^verbatim>\<open>mx_stylable_set_style\<close> that passes the type
  checks and has no \<^verbatim>\<open>set_style\<close> override, with live objects (the new style, the
  attached one and the one \<^verbatim>\<open>get_style\<close> returns), the count of the new style goes up
  by one and the count of the style attached before, when there is one, goes down by one;
  no other count changes, and a style set again keeps its count. Afterwards the new
  style is the attached one. When nothing is attached, as on the first call, no count
  goes down.
\<close>

theorem C4_set_style_reference_counts:
  assumes "MX_IS_STYLABLE e stylable" and "MX_IS_STYLE e (Some s)" and "set_style iface = None"
    and "0 < ref_count w s"
    and "\<forall>p. qdata w stylable quark_style = Some p \<longrightarrow> 0 < ref_count w p"
    and "\<forall>old. fst (mx_stylable_get_style e iface stylable w) = Some old \<longrightarrow> 0 < ref_count w old"
  shows "ref_count (mx_stylable_set_style e iface stylable (Some s) w) a =
           ref_count w a + (if a = s then 1 else 0)
             - (if qdata w stylable quark_style = Some a then 1 else 0)
         \<and> qdata (mx_stylable_set_style e iface stylable (Some s) w) stylable quark_style = Some s"
  using set_style_ref_count [OF assms] set_style_qdata [OF assms(1,2,3)]
  by simp

theorem C4_set_style_witness:
  "ref_count (mx_stylable_set_style example_env default_iface 1 (Some 3) example_world_attached) 2 = 0
   \<and> ref_count (mx_stylable_set_style example_env default_iface 1 (Some 3) example_world_attached) 3 = 2
   \<and> ref_count (mx_stylable_set_style example_env default_iface 1 (Some 3) example_world_attached) 1 = 1
   \<and> qdata (mx_stylable_set_style example_env default_iface 1 (Some 3) example_world_attached) 1
        quark_style = Some 3"
proof -
  have h1: "MX_IS_STYLABLE example_env 1"
    by (simp add: MX_IS_STYLABLE_def example_env_def)
  have h2: "MX_IS_STYLE example_env (Some 3)"
    by (simp add: MX_IS_STYLE_def example_env_def)
  have h3: "set_style default_iface = None"
    by (simp add: default_iface_def)
  have h4: "0 < ref_count example_world_attached 3"
    by (simp add: example_world_attached_def example_world_def)
  have h5: "\<forall>p. qdata example_world_attached 1 quark_style = Some p
              \<longrightarrow> 0 < ref_count example_world_attached p"
    by (simp add: example_world_attached_def example_world_def)
  have h6: "\<forall>old. fst (mx_stylable_get_style example_env default_iface 1 example_world_attached)
              = Some old \<longrightarrow> 0 < ref_count example_world_attached old"
    by (simp add: mx_stylable_get_style_def h1 default_iface_def g_object_get_data_def
        example_world_attached_def example_world_def quark_style_def)
  have q: "qdata example_world_attached 1 quark_style = Some 2"
    by (simp add: example_world_attached_def example_world_def)
  have r: "ref_count example_world_attached 1 = 1" "ref_count example_world_attached 2 = 1"
    "ref_count example_world_attached 3 = 1"
    by (simp_all add: example_world_attached_def example_world_def)
  show ?thesis
    using C4_set_style_reference_counts [OF h1 h2 h3 h4 h5 h6, of 1]
      C4_set_style_reference_counts [OF h1 h2 h3 h4 h5 h6, of 2]
      C4_set_style_reference_counts [OF h1 h2 h3 h4 h5 h6, of 3] q r
    by simp
qed

text \<open>
  Claim C4 as it is written has the style attached before released on every call, the
  first one included. On the first call nothing is attached: the only count that changes
  is that of the new style, which goes from 1 to 2, so no reference is released; the
  reference calls on the old style act on \<^verbatim>\<open>NULL\<close> and log a critical message each.
\<close>

theorem C4_first_call_counterexample:
  "qdata example_world 1 quark_style = None
   \<and> ref_count (mx_stylable_set_style example_env default_iface 1 (Some 2) example_world)
       = (ref_count example_world)(2 := ref_count example_world 2 + 1)
   \<and> ref_count example_world 2 = 1
   \<and> trace (mx_stylable_set_style example_env default_iface 1 (Some 2) example_world)
       = [Diagnostic Critical ''g_object_ref: assertion G_IS_OBJECT (object) failed'',
          Emission 1 STYLE_CHANGED None [],
          Diagnostic Critical ''g_object_unref: assertion G_IS_OBJECT (object) failed'',
          Property_notify 1 ''style'']"
  by (simp add: mx_stylable_get_style_def mx_stylable_set_style_def default_iface_def
      example_env_def example_world_def MX_IS_STYLABLE_def MX_IS_STYLE_def stylable_signals_def
      g_object_get_data_def g_object_set_qdata_full_def g_object_ref_sink_def
      g_object_ref_def g_object_unref_def g_log_def g_signal_emit_def g_object_notify_def
      quark_style_def)

subsection \<open>Installing a style property\<close>

lemma construct_flags:
  "(x AND (G_PARAM_CONSTRUCT_ONLY OR G_PARAM_CONSTRUCT) \<noteq> 0) =
   (x AND G_PARAM_CONSTRUCT_ONLY \<noteq> 0 \<or> x AND G_PARAM_CONSTRUCT \<noteq> 0)"
  for x :: "32 word"
  by (simp add: bit.conj_disj_distrib or_eq_0_iff)

text \<open>The descriptor that an accepted installation stores.\<close>

lemma install_accepts:
  assumes "iface \<noteq> None" and "owner_type \<noteq> G_TYPE_INVALID"
    and "flags p AND G_PARAM_READABLE \<noteq> 0"
    and "flags p AND G_PARAM_CONSTRUCT_ONLY = 0" and "flags p AND G_PARAM_CONSTRUCT = 0"
    and "style_property_spec_pool w (name p, owner_type) = None"
  shows "mx_stylable_iface_install_property e iface owner_type (Some p) w =
           w\<lparr>style_property_spec_pool :=
               (style_property_spec_pool w)((name p, owner_type) \<mapsto>
                  p\<lparr>real_owner := Some (g_type_name e owner_type)\<rparr>)\<rparr>"
  using assms
  by (cases iface)
    (simp_all add: mx_stylable_iface_install_property_def construct_flags
      g_param_spec_pool_lookup_def g_param_spec_pool_insert_def)

lemma install_rejects_flags:
  assumes "iface \<noteq> None" and "owner_type \<noteq> G_TYPE_INVALID"
    and "flags p AND G_PARAM_READABLE = 0 \<or> flags p AND G_PARAM_CONSTRUCT_ONLY \<noteq> 0
         \<or> flags p AND G_PARAM_CONSTRUCT \<noteq> 0"
  shows "\<exists>m. mx_stylable_iface_install_property e iface owner_type (Some p) w =
           g_log Critical m w"
  using assms
  by (auto simp: mx_stylable_iface_install_property_def construct_flags
      return_if_fail_warning_def)

lemma install_rejects_duplicate:
  assumes "iface \<noteq> None" and "owner_type \<noteq> G_TYPE_INVALID"
    and "style_property_spec_pool w (name p, owner_type) = Some q"
  shows "\<exists>l m. mx_stylable_iface_install_property e iface owner_type (Some p) w = g_log l m w"
  using assms
  by (auto simp: mx_stylable_iface_install_property_def return_if_fail_warning_def
      g_param_spec_pool_lookup_def)

lemma install_keeps_pool_readable:
  assumes "pool_readable (style_property_spec_pool w)"
  shows "pool_readable
           (style_property_spec_pool (mx_stylable_iface_install_property e iface owner_type pp w))"
  using assms
  by (auto simp: mx_stylable_iface_install_property_def pool_readable_def
      g_param_spec_pool_insert_def Let_def split: option.splits)

text \<open>
  Claim C9, as amended. For a valid interface and owner type,
  \<^verbatim>\<open>mx_stylable_iface_install_property\<close> leaves the pool as it is and logs one diagnostic
  when the pool has a descriptor of that name for that owner type (the installed one stays),
  and when the descriptor is not readable or has one of the flags \<^verbatim>\<open>G_PARAM_CONSTRUCT\<close>
  and \<^verbatim>\<open>G_PARAM_CONSTRUCT_ONLY\<close>. Otherwise it logs nothing and stores the descriptor,
  with the name of the owner type attached, under its name and the owner type, where a
  lookup without ancestors finds it.
\<close>

theorem C9_install_property:
  assumes "iface \<noteq> None" and "owner_type \<noteq> G_TYPE_INVALID"
  shows "(style_property_spec_pool w (name p, owner_type) = Some q \<longrightarrow>
            (\<exists>l m. mx_stylable_iface_install_property e iface owner_type (Some p) w = g_log l m w)
            \<and> style_property_spec_pool
                (mx_stylable_iface_install_property e iface owner_type (Some p) w)
                (name p, owner_type) = Some q)
         \<and> (flags p AND G_PARAM_READABLE = 0 \<or> flags p AND G_PARAM_CONSTRUCT_ONLY \<noteq> 0
              \<or> flags p AND G_PARAM_CONSTRUCT \<noteq> 0 \<longrightarrow>
            (\<exists>m. mx_stylable_iface_install_property e iface owner_type (Some p) w =
                   g_log Critical m w))
         \<and> (flags p AND G_PARAM_READABLE \<noteq> 0 \<and> flags p AND G_PARAM_CONSTRUCT_ONLY = 0
              \<and> flags p AND G_PARAM_CONSTRUCT = 0
              \<and> style_property_spec_pool w (name p, owner_type) = None \<longrightarrow>
            mx_stylable_iface_install_property e iface owner_type (Some p) w =
              w\<lparr>style_property_spec_pool :=
                  (style_property_spec_pool w)((name p, owner_type) \<mapsto>
                     p\<lparr>real_owner := Some (g_type_name e owner_type)\<rparr>)\<rparr>
            \<and> g_param_spec_pool_lookup e
                (style_property_spec_pool
                   (mx_stylable_iface_install_property e iface owner_type (Some p) w))
                (name p) owner_type False
              = Some (p\<lparr>real_owner := Some (g_type_name e owner_type)\<rparr>))"
proof (intro conjI impI)
  assume dup: "style_property_spec_pool w (name p, owner_type) = Some q"
  from install_rejects_duplicate [OF assms dup, of e]
  show "\<exists>l m. mx_stylable_iface_install_property e iface owner_type (Some p) w = g_log l m w" .
  then show "style_property_spec_pool
               (mx_stylable_iface_install_property e iface owner_type (Some p) w)
               (name p, owner_type) = Some q"
    using dup by auto
next
  assume "flags p AND G_PARAM_READABLE = 0 \<or> flags p AND G_PARAM_CONSTRUCT_ONLY \<noteq> 0
            \<or> flags p AND G_PARAM_CONSTRUCT \<noteq> 0"
  then show "\<exists>m. mx_stylable_iface_install_property e iface owner_type (Some p) w =
               g_log Critical m w"
    by (rule install_rejects_flags [OF assms])
next
  assume ok: "flags p AND G_PARAM_READABLE \<noteq> 0 \<and> flags p AND G_PARAM_CONSTRUCT_ONLY = 0
            \<and> flags p AND G_PARAM_CONSTRUCT = 0
            \<and> style_property_spec_pool w (name p, owner_type) = None"
  then have eq: "mx_stylable_iface_install_property e iface owner_type (Some p) w =
              w\<lparr>style_property_spec_pool :=
                  (style_property_spec_pool w)((name p, owner_type) \<mapsto>
                     p\<lparr>real_owner := Some (g_type_name e owner_type)\<rparr>)\<rparr>"
    using install_accepts [OF assms, of p w e] by simp
  then show "mx_stylable_iface_install_property e iface owner_type (Some p) w =
              w\<lparr>style_property_spec_pool :=
                  (style_property_spec_pool w)((name p, owner_type) \<mapsto>
                     p\<lparr>real_owner := Some (g_type_name e owner_type)\<rparr>)\<rparr>" .
  show "g_param_spec_pool_lookup e
          (style_property_spec_pool
             (mx_stylable_iface_install_property e iface owner_type (Some p) w))
          (name p) owner_type False
        = Some (p\<lparr>real_owner := Some (g_type_name e owner_type)\<rparr>)"
    by (simp add: eq g_param_spec_pool_lookup_def)
qed

theorem C9_install_witness:
  "style_property_spec_pool
     (mx_stylable_iface_install_property example_env (Some default_iface) 10 (Some x_spacing)
        example_world) (''x-spacing'', 10)
   = Some (x_spacing\<lparr>real_owner := Some ''MxWidget''\<rparr>)
   \<and> style_property_spec_pool
       (mx_stylable_iface_install_property example_env (Some default_iface) 10
          (Some (x_spacing\<lparr>value_type := 7\<rparr>))
          (mx_stylable_iface_install_property example_env (Some default_iface) 10 (Some x_spacing)
             example_world)) (''x-spacing'', 10)
     = Some (x_spacing\<lparr>real_owner := Some ''MxWidget''\<rparr>)"
proof -
  let ?w1 = "mx_stylable_iface_install_property example_env (Some default_iface) 10
               (Some x_spacing) example_world"
  have v: "Some default_iface \<noteq> None" "(10 :: GType) \<noteq> G_TYPE_INVALID"
    by (simp_all add: G_TYPE_INVALID_def)
  have f: "flags x_spacing AND G_PARAM_READABLE \<noteq> 0 \<and> flags x_spacing AND G_PARAM_CONSTRUCT_ONLY = 0
           \<and> flags x_spacing AND G_PARAM_CONSTRUCT = 0
           \<and> style_property_spec_pool example_world (name x_spacing, 10) = None"
    by (simp add: x_spacing_def G_PARAM_READABLE_def G_PARAM_WRITABLE_def
        G_PARAM_CONSTRUCT_ONLY_def G_PARAM_CONSTRUCT_def example_world_def)
  have n: "name x_spacing = ''x-spacing''" "g_type_name example_env 10 = ''MxWidget''"
    by (simp_all add: x_spacing_def example_env_def)
  have first: "?w1 = example_world\<lparr>style_property_spec_pool :=
                  (style_property_spec_pool example_world)((''x-spacing'', 10) \<mapsto>
                     x_spacing\<lparr>real_owner := Some ''MxWidget''\<rparr>)\<rparr>"
    using C9_install_property [OF v, of example_world x_spacing _ example_env] f
    by (simp add: n)
  have dup: "style_property_spec_pool ?w1 (name (x_spacing\<lparr>value_type := 7\<rparr>), 10)
             = Some (x_spacing\<lparr>real_owner := Some ''MxWidget''\<rparr>)"
    by (simp add: first n)
  show ?thesis
    using C9_install_property [OF v, of ?w1 "x_spacing\<lparr>value_type := 7\<rparr>"
        "x_spacing\<lparr>real_owner := Some ''MxWidget''\<rparr>" example_env] dup
    by (simp add: first n)
qed

text \<open>
  Claim C9 as it is written requires the descriptor to be readable and not
  construct-only, and has every other descriptor with a new name stored. The descriptor
  \<open>construct_spacing\<close> is readable and writable and has the flag \<^verbatim>\<open>G_PARAM_CONSTRUCT\<close>;
  it is not construct-only and the pool is empty, and it is not stored.
\<close>

theorem C9_construct_flag_counterexample:
  "flags construct_spacing AND G_PARAM_READABLE \<noteq> 0
   \<and> flags construct_spacing AND G_PARAM_CONSTRUCT_ONLY = 0
   \<and> style_property_spec_pool example_world (name construct_spacing, 10) = None
   \<and> style_property_spec_pool
       (mx_stylable_iface_install_property example_env (Some default_iface) 10
          (Some construct_spacing) example_world) (name construct_spacing, 10) = None"
  by (simp add: mx_stylable_iface_install_property_def construct_spacing_def
      G_PARAM_READABLE_def G_PARAM_WRITABLE_def G_PARAM_CONSTRUCT_ONLY_def G_PARAM_CONSTRUCT_def
      G_TYPE_INVALID_def example_world_def return_if_fail_warning_def g_log_def)

subsection \<open>The notify queue\<close>

lemma dispatcher_trace:
  "mx_stylable_notify_dispatcher a ps w =
     w\<lparr>trace := trace w @ map (\<lambda>p. Emission a STYLE_NOTIFY (Some (name p)) [Arg_param p]) ps\<rparr>"
proof (induction ps arbitrary: w)
  case Nil
  then show ?case by simp
next
  case (Cons p ps)
  show ?case
    by (simp add: Cons.IH g_signal_emit_def)
qed

lemma pool_walk_in_pool:
  "pool_walk pool n ts = Some p \<Longrightarrow> \<exists>t. pool (n, t) = Some p"
  by (induction ts) (auto split: option.splits)

lemma lookup_readable:
  assumes "pool_readable pool" and "g_param_spec_pool_lookup e pool n t walk = Some p"
  shows "flags p AND G_PARAM_READABLE \<noteq> 0"
proof -
  have "\<exists>k. pool k = Some p"
  proof (cases walk)
    case True
    with assms(2) have "pool_walk pool n (t # g_type_ancestors e t) = Some p"
      by (simp add: g_param_spec_pool_lookup_def)
    then show ?thesis
      using pool_walk_in_pool by blast
  next
    case False
    with assms(2) show ?thesis
      by (auto simp: g_param_spec_pool_lookup_def)
  qed
  with assms(1) show ?thesis
    by (auto simp: pool_readable_def)
qed

text \<open>\<^verbatim>\<open>mx_stylable_freeze_notify\<close> on an object without a queue creates the queue, frozen
  once and empty.\<close>

lemma freeze_notify_unfrozen:
  assumes "MX_IS_STYLABLE e a" and "0 < ref_count w a" and "notify_queue w a = None"
  shows "mx_stylable_freeze_notify e a w =
           w\<lparr>notify_queue :=
               (notify_queue w)(a \<mapsto> \<lparr>pspecs = [], n_pspecs = 0, freeze_count = 1\<rparr>)\<rparr>"
  using assms
  by (simp add: mx_stylable_freeze_notify_def g_object_ref_live g_object_unref_def
      g_object_notify_queue_freeze_def Let_def)

text \<open>\<^verbatim>\<open>mx_stylable_notify\<close> for a known, readable property on a frozen object prepends
  the descriptor to the queue and changes nothing else.\<close>

lemma notify_frozen:
  assumes "MX_IS_STYLABLE e a" and "0 < ref_count w a"
    and "notify_queue w a = Some q"
    and "0 < freeze_count q" and "freeze_count q < 65535" and "n_pspecs q < 65535"
    and "g_param_spec_pool_lookup e (style_property_spec_pool w) n (G_OBJECT_TYPE e a) True
         = Some p"
    and "flags p AND G_PARAM_READABLE \<noteq> 0"
  shows "mx_stylable_notify e a (Some n) w =
           w\<lparr>notify_queue :=
               (notify_queue w)(a \<mapsto> q\<lparr>pspecs := p # pspecs q, n_pspecs := n_pspecs q + 1\<rparr>)\<rparr>"
  using assms
  by (simp add: mx_stylable_notify_def g_object_ref_live g_object_unref_def
      g_object_notify_queue_freeze_def g_object_notify_queue_add_def
      g_object_notify_queue_thaw_def Let_def)

text \<open>On an object without a queue it emits the notification at once and leaves no
  queue.\<close>

lemma notify_unfrozen:
  assumes "MX_IS_STYLABLE e a" and "0 < ref_count w a"
    and "notify_queue w a = None"
    and "g_param_spec_pool_lookup e (style_property_spec_pool w) n (G_OBJECT_TYPE e a) True
         = Some p"
    and "flags p AND G_PARAM_READABLE \<noteq> 0"
  shows "mx_stylable_notify e a (Some n) w =
           w\<lparr>trace := trace w @ [Emission a STYLE_NOTIFY (Some (name p)) [Arg_param p]]\<rparr>"
proof -
  have "(notify_queue w)(a := None) = notify_queue w"
    using assms(3) by (simp add: fun_upd_idem)
  with assms show ?thesis
    by (simp add: mx_stylable_notify_def g_object_ref_live g_object_unref_def
        g_object_notify_queue_freeze_def g_object_notify_queue_add_def
        g_object_notify_queue_thaw_def dispatcher_trace Let_def)
qed

text \<open>The thaw that brings \<open>freeze_count\<close> from 1 to 0 removes the queue and dispatches
  its descriptors, each once; a thaw from a higher count only decrements.\<close>

lemma thaw_notify_last:
  assumes "MX_IS_STYLABLE e a" and "0 < ref_count w a"
    and "notify_queue w a = Some q" and "freeze_count q = 1"
  shows "mx_stylable_thaw_notify e a w =
           w\<lparr>notify_queue := (notify_queue w)(a := None),
             trace := trace w @ map (\<lambda>p. Emission a STYLE_NOTIFY (Some (name p)) [Arg_param p])
                                  (dedup_pspecs [] (pspecs q))\<rparr>"
  using assms
  by (simp add: mx_stylable_thaw_notify_def g_object_ref_live g_object_unref_def
      g_object_notify_queue_from_object_def g_object_notify_queue_thaw_def dispatcher_trace
      Let_def)

lemma thaw_notify_nested:
  assumes "MX_IS_STYLABLE e a" and "0 < ref_count w a"
    and "notify_queue w a = Some q" and "1 < freeze_count q"
  shows "mx_stylable_thaw_notify e a w =
           w\<lparr>notify_queue := (notify_queue w)(a \<mapsto> q\<lparr>freeze_count := freeze_count q - 1\<rparr>)\<rparr>"
  using assms
  by (simp add: mx_stylable_thaw_notify_def g_object_ref_live g_object_unref_def
      g_object_notify_queue_from_object_def g_object_notify_queue_thaw_def Let_def)

text \<open>\<^verbatim>\<open>mx_stylable_freeze_notify\<close> on an object whose queue is frozen increments
  \<open>freeze_count\<close>.\<close>

lemma freeze_notify_frozen:
  assumes "MX_IS_STYLABLE e a" and "0 < ref_count w a"
    and "notify_queue w a = Some q" and "freeze_count q < 65535"
  shows "mx_stylable_freeze_notify e a w =
           w\<lparr>notify_queue := (notify_queue w)(a \<mapsto> q\<lparr>freeze_count := freeze_count q + 1\<rparr>)\<rparr>"
  using assms
  by (simp add: mx_stylable_freeze_notify_def g_object_ref_live g_object_unref_def
      g_object_notify_queue_freeze_def Let_def)

text \<open>The copying loop adds nothing for descriptors the array already holds.\<close>

lemma dedup_pspecs_absorb: "set ps \<subseteq> set acc \<Longrightarrow> dedup_pspecs acc ps = acc"
  by (induction ps arbitrary: acc) auto

text \<open>
  Claim C5, as amended. Take a live stylable object and a pool of readable descriptors
  (which is what \<^verbatim>\<open>mx_stylable_iface_install_property\<close> keeps) in which the names \<open>n1\<close>
  and \<open>n2\<close> resolve, ancestors included, to two different descriptors. When the queue
  of the object is frozen exactly once (\<open>freeze_count\<close> is 1), holds no descriptor
  other than those two and has fewer than 65533 entries, the notifications for \<open>n1\<close>,
  \<open>n2\<close> and \<open>n1\<close> again add nothing to the trace, and the thaw then emits exactly
  two \<^verbatim>\<open>style-notify\<close> signals, one for each descriptor, removes the queue and changes
  nothing else. When the object has no queue, a notification emits its one signal at once
  and changes nothing else, so nothing is buffered.
\<close>

theorem C5_freeze_notify_thaw:
  assumes "MX_IS_STYLABLE e a" and "0 < ref_count w a"
    and "notify_queue w a = Some q" and "freeze_count q = 1"
    and "set (pspecs q) \<subseteq> {p1, p2}" and "n_pspecs q < 65533"
    and "pool_readable (style_property_spec_pool w)"
    and "g_param_spec_pool_lookup e (style_property_spec_pool w) n1 (G_OBJECT_TYPE e a) True
         = Some p1"
    and "g_param_spec_pool_lookup e (style_property_spec_pool w) n2 (G_OBJECT_TYPE e a) True
         = Some p2"
    and "p1 \<noteq> p2"
  shows "trace (mx_stylable_notify e a (Some n1)
                 (mx_stylable_notify e a (Some n2)
                    (mx_stylable_notify e a (Some n1) w))) = trace w
         \<and> mx_stylable_thaw_notify e a
             (mx_stylable_notify e a (Some n1)
                (mx_stylable_notify e a (Some n2)
                   (mx_stylable_notify e a (Some n1) w)))
           = w\<lparr>notify_queue := (notify_queue w)(a := None),
               trace := trace w @
                  [Emission a STYLE_NOTIFY (Some (name p1)) [Arg_param p1],
                   Emission a STYLE_NOTIFY (Some (name p2)) [Arg_param p2]]\<rparr>
         \<and> (0 < ref_count u a \<and> notify_queue u a = None
              \<and> pool_readable (style_property_spec_pool u)
              \<and> g_param_spec_pool_lookup e (style_property_spec_pool u) n1 (G_OBJECT_TYPE e a)
                    True = Some p1 \<longrightarrow>
            mx_stylable_notify e a (Some n1) u
              = u\<lparr>trace := trace u @ [Emission a STYLE_NOTIFY (Some (name p1)) [Arg_param p1]]\<rparr>)"
proof -
  have r1: "flags p1 AND G_PARAM_READABLE \<noteq> 0"
    using assms(7,8) by (rule lookup_readable)
  have r2: "flags p2 AND G_PARAM_READABLE \<noteq> 0"
    using assms(7,9) by (rule lookup_readable)
  define q1 where "q1 = q\<lparr>pspecs := p1 # pspecs q, n_pspecs := n_pspecs q + 1\<rparr>"
  define q2 where "q2 = q\<lparr>pspecs := p2 # p1 # pspecs q, n_pspecs := n_pspecs q + 2\<rparr>"
  define q3 where "q3 = q\<lparr>pspecs := p1 # p2 # p1 # pspecs q, n_pspecs := n_pspecs q + 3\<rparr>"
  define w1 where "w1 = mx_stylable_notify e a (Some n1) w"
  define w2 where "w2 = mx_stylable_notify e a (Some n2) w1"
  define w3 where "w3 = mx_stylable_notify e a (Some n1) w2"
  have "mx_stylable_notify e a (Some n1) w =
          w\<lparr>notify_queue :=
               (notify_queue w)(a \<mapsto> q\<lparr>pspecs := p1 # pspecs q, n_pspecs := n_pspecs q + 1\<rparr>)\<rparr>"
    using assms(1,2,3,4,6,8) r1 by (intro notify_frozen) simp_all
  then have s1: "w1 = w\<lparr>notify_queue := (notify_queue w)(a \<mapsto> q1)\<rparr>"
    by (simp add: w1_def q1_def)
  have "mx_stylable_notify e a (Some n2) w1 =
          w1\<lparr>notify_queue :=
               (notify_queue w1)(a \<mapsto> q1\<lparr>pspecs := p2 # pspecs q1, n_pspecs := n_pspecs q1 + 1\<rparr>)\<rparr>"
    using assms(1,2,4,6,9) r2 by (intro notify_frozen) (simp_all add: s1 q1_def)
  then have s2: "w2 = w\<lparr>notify_queue := (notify_queue w)(a \<mapsto> q2)\<rparr>"
    by (simp add: w2_def s1 q1_def q2_def eval_nat_numeral)
  have "mx_stylable_notify e a (Some n1) w2 =
          w2\<lparr>notify_queue :=
               (notify_queue w2)(a \<mapsto> q2\<lparr>pspecs := p1 # pspecs q2, n_pspecs := n_pspecs q2 + 1\<rparr>)\<rparr>"
    using assms(1,2,4,6,8) r1 by (intro notify_frozen) (simp_all add: s2 q2_def)
  then have s3: "w3 = w\<lparr>notify_queue := (notify_queue w)(a \<mapsto> q3)\<rparr>"
    by (simp add: w3_def s2 q2_def q3_def eval_nat_numeral)
  have "dedup_pspecs [p1, p2] (p1 # pspecs q) = [p1, p2]"
    using assms(5) by (intro dedup_pspecs_absorb) auto
  then have d: "dedup_pspecs [] (pspecs q3) = [p1, p2]"
    using assms(10) by (simp add: q3_def)
  have "mx_stylable_thaw_notify e a w3 =
          w3\<lparr>notify_queue := (notify_queue w3)(a := None),
             trace := trace w3 @ map (\<lambda>p. Emission a STYLE_NOTIFY (Some (name p)) [Arg_param p])
                                  (dedup_pspecs [] (pspecs q3))\<rparr>"
    using assms(1,2,4) by (intro thaw_notify_last) (simp_all add: s3 q3_def)
  then have s4: "mx_stylable_thaw_notify e a w3 =
      w\<lparr>notify_queue := (notify_queue w)(a := None),
         trace := trace w @
          [Emission a STYLE_NOTIFY (Some (name p1)) [Arg_param p1],
           Emission a STYLE_NOTIFY (Some (name p2)) [Arg_param p2]]\<rparr>"
    by (simp add: s3 d)
  have s5: "0 < ref_count u a \<and> notify_queue u a = None
              \<and> pool_readable (style_property_spec_pool u)
              \<and> g_param_spec_pool_lookup e (style_property_spec_pool u) n1 (G_OBJECT_TYPE e a)
                    True = Some p1 \<longrightarrow>
            mx_stylable_notify e a (Some n1) u
              = u\<lparr>trace := trace u @ [Emission a STYLE_NOTIFY (Some (name p1)) [Arg_param p1]]\<rparr>"
    using assms(1) r1 by (auto intro: notify_unfrozen)
  have "trace w3 = trace w" by (simp add: s3)
  with s4 s5 show ?thesis
    unfolding w3_def w2_def w1_def by simp
qed

theorem C5_freeze_notify_thaw_witness:
  "notify_queue example_world_frozen 1 = Some \<lparr>pspecs = [], n_pspecs = 0, freeze_count = 1\<rparr>
   \<and> trace (mx_stylable_thaw_notify example_env 1
            (mx_stylable_notify example_env 1 (Some ''x-spacing'')
               (mx_stylable_notify example_env 1 (Some ''y-spacing'')
                  (mx_stylable_notify example_env 1 (Some ''x-spacing'') example_world_frozen))))
   = [Emission 1 STYLE_NOTIFY (Some ''x-spacing'')
        [Arg_param (x_spacing\<lparr>real_owner := Some ''GObject''\<rparr>)],
      Emission 1 STYLE_NOTIFY (Some ''y-spacing'')
        [Arg_param (y_spacing\<lparr>real_owner := Some ''MxWidget''\<rparr>)]]
   \<and> notify_queue (mx_stylable_thaw_notify example_env 1
            (mx_stylable_notify example_env 1 (Some ''x-spacing'')
               (mx_stylable_notify example_env 1 (Some ''y-spacing'')
                  (mx_stylable_notify example_env 1 (Some ''x-spacing'') example_world_frozen)))) 1
     = None
   \<and> trace (mx_stylable_notify example_env 1 (Some ''x-spacing'') example_world_pool)
   = [Emission 1 STYLE_NOTIFY (Some ''x-spacing'')
        [Arg_param (x_spacing\<lparr>real_owner := Some ''GObject''\<rparr>)]]"
proof -
  let ?q = "\<lparr>pspecs = [], n_pspecs = 0, freeze_count = 1\<rparr>"
  have h1: "MX_IS_STYLABLE example_env 1"
    by (simp add: MX_IS_STYLABLE_def example_env_def)
  have u2: "0 < ref_count example_world_pool 1"
    by (simp add: example_world_pool_def example_world_def)
  have u3: "notify_queue example_world_pool 1 = None"
    by (simp add: example_world_pool_def example_world_def)
  have u4: "pool_readable (style_property_spec_pool example_world_pool)"
    by (auto simp: pool_readable_def example_world_pool_def x_spacing_def y_spacing_def
        G_PARAM_READABLE_def G_PARAM_WRITABLE_def split: if_splits)
  have u5: "g_param_spec_pool_lookup example_env (style_property_spec_pool example_world_pool)
              ''x-spacing'' (G_OBJECT_TYPE example_env 1) True
            = Some (x_spacing\<lparr>real_owner := Some ''GObject''\<rparr>)"
    by (simp add: g_param_spec_pool_lookup_def example_world_pool_def example_env_def)
  have u6: "g_param_spec_pool_lookup example_env (style_property_spec_pool example_world_pool)
              ''y-spacing'' (G_OBJECT_TYPE example_env 1) True
            = Some (y_spacing\<lparr>real_owner := Some ''MxWidget''\<rparr>)"
    by (simp add: g_param_spec_pool_lookup_def example_world_pool_def example_env_def)
  have f: "example_world_frozen =
             example_world_pool\<lparr>notify_queue := (notify_queue example_world_pool)(1 \<mapsto> ?q)\<rparr>"
    unfolding example_world_frozen_def using h1 u2 u3 by (rule freeze_notify_unfrozen)
  have h2: "0 < ref_count example_world_frozen 1"
    using u2 by (simp add: f)
  have h3: "notify_queue example_world_frozen 1 = Some ?q"
    by (simp add: f)
  have h4: "freeze_count ?q = 1" "set (pspecs ?q) \<subseteq> {x_spacing\<lparr>real_owner := Some ''GObject''\<rparr>,
      y_spacing\<lparr>real_owner := Some ''MxWidget''\<rparr>}" "n_pspecs ?q < 65533"
    by simp_all
  have h7: "pool_readable (style_property_spec_pool example_world_frozen)"
    using u4 by (simp add: f)
  have h8: "g_param_spec_pool_lookup example_env (style_property_spec_pool example_world_frozen)
              ''x-spacing'' (G_OBJECT_TYPE example_env 1) True
            = Some (x_spacing\<lparr>real_owner := Some ''GObject''\<rparr>)"
    using u5 by (simp add: f)
  have h9: "g_param_spec_pool_lookup example_env (style_property_spec_pool example_world_frozen)
              ''y-spacing'' (G_OBJECT_TYPE example_env 1) True
            = Some (y_spacing\<lparr>real_owner := Some ''MxWidget''\<rparr>)"
    using u6 by (simp add: f)
  have h10: "x_spacing\<lparr>real_owner := Some ''GObject''\<rparr> \<noteq> y_spacing\<lparr>real_owner := Some ''MxWidget''\<rparr>"
    by (simp add: x_spacing_def y_spacing_def)
  have t: "trace example_world_pool = []" "trace example_world_frozen = []"
    by (simp_all add: f example_world_pool_def example_world_def)
  have n: "name (x_spacing\<lparr>real_owner := Some ''GObject''\<rparr>) = ''x-spacing''"
    "name (y_spacing\<lparr>real_owner := Some ''MxWidget''\<rparr>) = ''y-spacing''"
    by (simp_all add: x_spacing_def y_spacing_def)
  show ?thesis
    using C5_freeze_notify_thaw [OF h1 h2 h3 h4 h7 h8 h9 h10, of example_world_pool] h3 u2 u3 u4 u5
    by (simp add: t n)
qed

text \<open>
  Claim C5 as it is written holds for every object whose queue is frozen. After two
  calls of \<^verbatim>\<open>mx_stylable_freeze_notify\<close> the queue is frozen with \<open>freeze_count\<close> 2;
  the notifications for \<^verbatim>\<open>x-spacing\<close>, \<^verbatim>\<open>y-spacing\<close> and \<^verbatim>\<open>x-spacing\<close> and the thaw
  then emit nothing: the thaw only brings \<open>freeze_count\<close> to 1 and the three entries
  stay in the queue.
\<close>

theorem C5_nested_freeze_counterexample:
  "notify_queue example_world_frozen_twice 1 =
     Some \<lparr>pspecs = [], n_pspecs = 0, freeze_count = 2\<rparr>
   \<and> trace (mx_stylable_thaw_notify example_env 1
            (mx_stylable_notify example_env 1 (Some ''x-spacing'')
               (mx_stylable_notify example_env 1 (Some ''y-spacing'')
                  (mx_stylable_notify example_env 1 (Some ''x-spacing'')
                     example_world_frozen_twice)))) = []
   \<and> notify_queue (mx_stylable_thaw_notify example_env 1
            (mx_stylable_notify example_env 1 (Some ''x-spacing'')
               (mx_stylable_notify example_env 1 (Some ''y-spacing'')
                  (mx_stylable_notify example_env 1 (Some ''x-spacing'')
                     example_world_frozen_twice)))) 1
     = Some \<lparr>pspecs = [x_spacing\<lparr>real_owner := Some ''GObject''\<rparr>,
                       y_spacing\<lparr>real_owner := Some ''MxWidget''\<rparr>,
                       x_spacing\<lparr>real_owner := Some ''GObject''\<rparr>],
             n_pspecs = 3, freeze_count = 1\<rparr>"
  by (simp add: example_world_frozen_twice_def example_world_frozen_def example_world_pool_def
      example_world_def example_env_def x_spacing_def y_spacing_def
      mx_stylable_freeze_notify_def mx_stylable_notify_def mx_stylable_thaw_notify_def
      MX_IS_STYLABLE_def g_object_ref_def g_object_unref_def
      g_object_notify_queue_freeze_def g_object_notify_queue_add_def
      g_object_notify_queue_thaw_def g_object_notify_queue_from_object_def
      g_param_spec_pool_lookup_def G_PARAM_READABLE_def G_PARAM_WRITABLE_def Let_def)

text \<open>
  Claim C10. \<^verbatim>\<open>mx_stylable_thaw_notify\<close> on a live stylable object that has no queue, or
  whose queue has \<open>freeze_count\<close> 0, returns the state it was given with one warning
  added to the trace: nothing is emitted, the queue and its \<open>freeze_count\<close> are as
  before, and the reference taken at the start is given back.
\<close>

theorem C10_thaw_without_freeze:
  assumes "MX_IS_STYLABLE e a" and "0 < ref_count w a"
    and "notify_queue w a = None \<or> (\<exists>q. notify_queue w a = Some q \<and> freeze_count q = 0)"
  shows "mx_stylable_thaw_notify e a w =
           w\<lparr>trace := trace w @ [Diagnostic Warning not_frozen_message]\<rparr>"
  using assms
  by (auto simp: mx_stylable_thaw_notify_def g_object_ref_live g_object_unref_def
      g_object_notify_queue_from_object_def g_log_def Let_def)

theorem C10_thaw_without_freeze_witness:
  "mx_stylable_thaw_notify example_env 1 example_world =
     example_world\<lparr>trace := [Diagnostic Warning not_frozen_message]\<rparr>
   \<and> mx_stylable_thaw_notify example_env 1 example_world_thawed =
     example_world_thawed\<lparr>trace := [Diagnostic Warning not_frozen_message]\<rparr>
   \<and> notify_queue (mx_stylable_thaw_notify example_env 1 example_world_thawed) 1 =
     Some \<lparr>pspecs = [], n_pspecs = 0, freeze_count = 0\<rparr>"
proof -
  have h1: "MX_IS_STYLABLE example_env 1"
    by (simp add: MX_IS_STYLABLE_def example_env_def)
  have h2: "0 < ref_count example_world 1" "0 < ref_count example_world_thawed 1"
    by (simp_all add: example_world_thawed_def example_world_def)
  have h3: "notify_queue example_world 1 = None
            \<or> (\<exists>q. notify_queue example_world 1 = Some q \<and> freeze_count q = 0)"
    by (simp add: example_world_def)
  have h4: "notify_queue example_world_thawed 1 = None
            \<or> (\<exists>q. notify_queue example_world_thawed 1 = Some q \<and> freeze_count q = 0)"
    by (simp add: example_world_thawed_def)
  have t: "trace example_world = []" "trace example_world_thawed = []"
    by (simp_all add: example_world_thawed_def example_world_def)
  have q: "notify_queue example_world_thawed 1 = Some \<lparr>pspecs = [], n_pspecs = 0, freeze_count = 0\<rparr>"
    by (simp add: example_world_thawed_def)
  show ?thesis
    using C10_thaw_without_freeze [OF h1 h2(1) h3] C10_thaw_without_freeze [OF h1 h2(2) h4] q
    by (simp add: t)
qed

end
